theory Spec2Isabelle
  imports Complex_Main "HOL-Library.Sublist"
begin

section \<open>JavaScript values used by the payment code\<close>

text \<open>
  The TypeScript sources compute with the built-in \<open>number\<close> type (IEEE 754 binary64),
  with \<open>bigint\<close> and with strings. A finite number is represented by its exact rational
  value; every arithmetic operation rounds its exact result to the nearest binary64 value
  (ties to even), as the hardware does. The two zeros are identified: the code under
  study only adds, multiplies, divides by a positive constant, rounds to an integer,
  compares and prints numbers, and none of these tells \<open>-0\<close> from \<open>0\<close> (both print as
  \<open>0\<close> and are equal under \<open>===\<close>). Strings are lists of 8-bit characters.
\<close>

type_synonym js_error = string

datatype jsnum = JFin rat | JNaN | JPosInf | JNegInf

definition pow2 :: "int \<Rightarrow> rat" where
  "pow2 e = (if 0 \<le> e then 2 ^ nat e else 1 / 2 ^ nat (- e))"

definition pow10 :: "int \<Rightarrow> rat" where
  "pow10 e = (if 0 \<le> e then 10 ^ nat e else 1 / 10 ^ nat (- e))"

text \<open>\<open>ilen b n\<close> is the number of base-\<open>b\<close> digits of a positive integer \<open>n\<close>.\<close>

function ilen :: "int \<Rightarrow> int \<Rightarrow> int" where
  "ilen b n = (if n \<le> 0 \<or> b < 2 then 0 else 1 + ilen b (n div b))"
  by pat_completeness auto
termination
  by (relation "measure (\<lambda>(b, n). nat n)") (auto simp: div_int_pos_iff intro!: int_div_less_self)

text \<open>For \<open>q > 0\<close>, \<open>ilog b q\<close> is the integer \<open>e\<close> with \<open>b^e \<le> q < b^(e+1)\<close>.\<close>

definition ilog :: "int \<Rightarrow> rat \<Rightarrow> int" where
  "ilog b q = (if 1 \<le> q then ilen b \<lfloor>q\<rfloor> - 1 else - ilen b (\<lceil>1 / q\<rceil> - 1))"

definition round_half_even :: "rat \<Rightarrow> int" where
  "round_half_even x =
     (let f = \<lfloor>x\<rfloor>; d = x - of_int f
      in if d < 1 / 2 then f else if 1 / 2 < d then f + 1 else if even f then f else f + 1)"

text \<open>
  Rounding of an exact value to binary64: 53 significant bits, minimal exponent \<open>-1022\<close>
  (below it the spacing stays \<open>2^-1074\<close>), overflow to an infinity from \<open>2^1024\<close> on
  (the rounded significand \<open>m\<close> reaches \<open>2^53\<close> at exponent 1023).
\<close>

definition fp_round :: "rat \<Rightarrow> jsnum" where
  "fp_round q =
     (if q = 0 then JFin 0
      else let a = \<bar>q\<bar>;
               e = max (ilog 2 a) (- 1022);
               u = pow2 (e - 52);
               m = round_half_even (a / u);
               v = of_int m * u
           in if 1023 < e \<or> (e = 1023 \<and> 2 ^ 53 \<le> m)
              then (if 0 < q then JPosInf else JNegInf)
              else JFin (if 0 < q then v else - v))"

fun js_mul :: "jsnum \<Rightarrow> jsnum \<Rightarrow> jsnum" where
  "js_mul (JFin a) (JFin b) = fp_round (a * b)"
| "js_mul JNaN _ = JNaN"
| "js_mul _ JNaN = JNaN"
| "js_mul (JFin a) JPosInf = (if a = 0 then JNaN else if 0 < a then JPosInf else JNegInf)"
| "js_mul (JFin a) JNegInf = (if a = 0 then JNaN else if 0 < a then JNegInf else JPosInf)"
| "js_mul JPosInf (JFin b) = (if b = 0 then JNaN else if 0 < b then JPosInf else JNegInf)"
| "js_mul JNegInf (JFin b) = (if b = 0 then JNaN else if 0 < b then JNegInf else JPosInf)"
| "js_mul JPosInf JPosInf = JPosInf"
| "js_mul JPosInf JNegInf = JNegInf"
| "js_mul JNegInf JPosInf = JNegInf"
| "js_mul JNegInf JNegInf = JPosInf"

fun js_add :: "jsnum \<Rightarrow> jsnum \<Rightarrow> jsnum" where
  "js_add (JFin a) (JFin b) = fp_round (a + b)"
| "js_add JNaN _ = JNaN"
| "js_add _ JNaN = JNaN"
| "js_add JPosInf JNegInf = JNaN"
| "js_add JNegInf JPosInf = JNaN"
| "js_add JPosInf _ = JPosInf"
| "js_add JNegInf _ = JNegInf"
| "js_add _ JPosInf = JPosInf"
| "js_add _ JNegInf = JNegInf"

text \<open>Division by a finite non-zero constant (the code divides by \<open>4.5\<close> only).\<close>

fun js_div_const :: "jsnum \<Rightarrow> rat \<Rightarrow> jsnum" where
  "js_div_const (JFin a) c = fp_round (a / c)"
| "js_div_const JNaN c = JNaN"
| "js_div_const JPosInf c = (if 0 < c then JPosInf else JNegInf)"
| "js_div_const JNegInf c = (if 0 < c then JNegInf else JPosInf)"

fun js_floor :: "jsnum \<Rightarrow> jsnum" where
  "js_floor (JFin a) = JFin (of_int \<lfloor>a\<rfloor>)"
| "js_floor x = x"

fun js_ceil :: "jsnum \<Rightarrow> jsnum" where
  "js_ceil (JFin a) = JFin (of_int \<lceil>a\<rceil>)"
| "js_ceil x = x"

fun js_lt :: "jsnum \<Rightarrow> jsnum \<Rightarrow> bool" where
  "js_lt JNaN _ = False"
| "js_lt _ JNaN = False"
| "js_lt (JFin a) (JFin b) = (a < b)"
| "js_lt JNegInf JNegInf = False"
| "js_lt JNegInf _ = True"
| "js_lt _ JNegInf = False"
| "js_lt JPosInf _ = False"
| "js_lt _ JPosInf = True"

text \<open>Strict equality \<open>===\<close> of two numbers: \<open>NaN\<close> equals nothing.\<close>

fun js_strict_eq :: "jsnum \<Rightarrow> jsnum \<Rightarrow> bool" where
  "js_strict_eq JNaN _ = False"
| "js_strict_eq _ JNaN = False"
| "js_strict_eq a b = (a = b)"

subsection \<open>Printing numbers\<close>

definition digit_char :: "int \<Rightarrow> char" where
  "digit_char d = ''0123456789'' ! nat (d mod 10)"

function digits_of :: "int \<Rightarrow> string" where
  "digits_of n = (if n < 10 then [digit_char n] else digits_of (n div 10) @ [digit_char n])"
  by pat_completeness auto
termination
  by (relation "measure nat") auto

text \<open>\<open>BigInt.prototype.toString\<close>: the decimal digits, with a sign for negative values.\<close>

definition int_toString :: "int \<Rightarrow> string" where
  "int_toString i = (if i < 0 then CHR ''-'' # digits_of (- i) else digits_of i)"

text \<open>
  \<open>Number.prototype.toString\<close> prints the shortest decimal digit string \<open>s\<close> (of \<open>k\<close>
  digits) and the decimal exponent \<open>n\<close> such that \<open>s * 10^(n-k)\<close> rounds to the number;
  among several such \<open>s\<close> the one closest to the number. For a given \<open>k\<close> the only
  candidates are the two multiples of \<open>10^(n0-k)\<close> around \<open>x\<close>, where \<open>n0\<close> is the number
  of integer digits of \<open>x\<close>; seventeen digits always suffice.
\<close>

definition digit_candidates :: "rat \<Rightarrow> int \<Rightarrow> int \<Rightarrow> (rat \<times> int \<times> int) list" where
  "digit_candidates x n0 k =
     (let m = n0 - k;
          lo = \<lfloor>x / pow10 m\<rfloor>;
          hi = lo + 1;
          c1 = (\<bar>of_int lo * pow10 m - x\<bar>, lo, n0);
          c2 = (if of_int hi = pow10 k then (\<bar>pow10 n0 - x\<bar>, \<lfloor>pow10 (k - 1)\<rfloor>, n0 + 1)
                else (\<bar>of_int hi * pow10 m - x\<bar>, hi, n0))
      in filter (\<lambda>(d, s, n). fp_round (of_int s * pow10 (n - k)) = JFin x) [c1, c2])"

fun shortest_digits :: "nat \<Rightarrow> rat \<Rightarrow> int \<Rightarrow> int \<Rightarrow> int \<times> int" where
  "shortest_digits 0 x n0 k = (\<lfloor>x / pow10 (n0 - k)\<rfloor>, n0)"
| "shortest_digits (Suc fuel) x n0 k =
     (case digit_candidates x n0 k of
        [] \<Rightarrow> shortest_digits fuel x n0 (k + 1)
      | [(d, s, n)] \<Rightarrow> (s, n)
      | (d1, s1, n1) # (d2, s2, n2) # _ \<Rightarrow>
          if d1 < d2 \<or> (d1 = d2 \<and> even s1) then (s1, n1) else (s2, n2))"

definition pos_toString :: "rat \<Rightarrow> string" where
  "pos_toString x =
     (let (s, n) = shortest_digits 17 x (ilog 10 x + 1) 1;
          ds = digits_of s;
          k = int (length ds)
      in if k \<le> n \<and> n \<le> 21 then ds @ replicate (nat (n - k)) CHR ''0''
         else if 0 < n \<and> n \<le> 21 then take (nat n) ds @ ''.'' @ drop (nat n) ds
         else if - 6 < n \<and> n \<le> 0 then ''0.'' @ replicate (nat (- n)) CHR ''0'' @ ds
         else let es = (if 0 \<le> n - 1 then ''+'' else ''-'') @ digits_of \<bar>n - 1\<bar>
              in if k = 1 then ds @ ''e'' @ es
                 else take 1 ds @ ''.'' @ drop 1 ds @ ''e'' @ es)"

fun js_toString :: "jsnum \<Rightarrow> string" where
  "js_toString JNaN = ''NaN''"
| "js_toString JPosInf = ''Infinity''"
| "js_toString JNegInf = ''-Infinity''"
| "js_toString (JFin q) =
     (if q = 0 then ''0'' else if q < 0 then CHR ''-'' # pos_toString (- q) else pos_toString q)"

subsection \<open>Parsing numbers\<close>

definition js_whitespace :: "char \<Rightarrow> bool" where
  "js_whitespace c = (c = CHR 0x09 \<or> c = CHR 0x0A \<or> c = CHR 0x0B \<or> c = CHR 0x0C
                      \<or> c = CHR 0x0D \<or> c = CHR 0x20 \<or> c = CHR 0xA0)"

text \<open>The value of a character as a digit; 36 for a character that is no digit in any radix.\<close>

definition digit_val :: "char \<Rightarrow> int" where
  "digit_val c =
     (let n = of_char c :: int
      in if 48 \<le> n \<and> n \<le> 57 then n - 48
         else if 97 \<le> n \<and> n \<le> 122 then n - 87
         else if 65 \<le> n \<and> n \<le> 90 then n - 55
         else 36)"

definition is_digit :: "int \<Rightarrow> char \<Rightarrow> bool" where
  "is_digit radix c = (digit_val c < radix)"

definition digits_value :: "int \<Rightarrow> string \<Rightarrow> int" where
  "digits_value radix cs = foldl (\<lambda>a c. a * radix + digit_val c) 0 cs"

definition split_sign :: "string \<Rightarrow> bool \<times> string" where
  "split_sign s =
     (case s of
        [] \<Rightarrow> (False, [])
      | c # r \<Rightarrow> if c = CHR ''-'' then (True, r) else if c = CHR ''+'' then (False, r) else (False, s))"

definition parse_exponent :: "string \<Rightarrow> int" where
  "parse_exponent s =
     (case s of
        [] \<Rightarrow> 0
      | c # r \<Rightarrow>
          if c = CHR ''e'' \<or> c = CHR ''E'' then
            (let (neg, d) = split_sign r;
                 ds = takeWhile (is_digit 10) d
             in if ds = [] then 0
                else if neg then - digits_value 10 ds else digits_value 10 ds)
          else 0)"

text \<open>
  \<open>parseFloat\<close>: skip leading white space, read the longest prefix that is a decimal
  literal (sign, digits, fraction, exponent, or \<open>Infinity\<close>) and round its value;
  \<open>NaN\<close> when no prefix is one.
\<close>

definition js_parseFloat :: "string \<Rightarrow> jsnum" where
  "js_parseFloat str =
     (let (neg, u) = split_sign (dropWhile js_whitespace str)
      in if prefix ''Infinity'' u then (if neg then JNegInf else JPosInf)
         else
           let ip = takeWhile (is_digit 10) u;
               r1 = dropWhile (is_digit 10) u;
               (fp, r2) = (case r1 of
                             [] \<Rightarrow> ([], [])
                           | c # r \<Rightarrow>
                               if c = CHR ''.''
                               then (takeWhile (is_digit 10) r, dropWhile (is_digit 10) r)
                               else ([], r1))
           in if ip = [] \<and> fp = [] then JNaN
              else
                let m = of_int (digits_value 10 (ip @ fp))
                          * pow10 (parse_exponent r2 - int (length fp))
                in fp_round (if neg then - m else m))"

text \<open>
  \<open>parseInt\<close> with no radix argument: white space, sign, an optional \<open>0x\<close> selecting
  radix 16, then the longest run of digits; \<open>NaN\<close> when there is none.
\<close>

definition js_parseInt :: "string \<Rightarrow> jsnum" where
  "js_parseInt str =
     (let (neg, u) = split_sign (dropWhile js_whitespace str);
          (radix, v) = (if prefix ''0x'' u \<or> prefix ''0X'' u then (16, drop 2 u) else (10, u));
          ds = takeWhile (is_digit radix) v
      in if ds = [] then JNaN
         else fp_round (if neg then - of_int (digits_value radix ds)
                        else of_int (digits_value radix ds)))"

text \<open>
  \<open>BigInt(string)\<close>: white space is trimmed on both sides; the empty string is \<open>0n\<close>; a
  signed run of decimal digits or an unsigned \<open>0x\<close>, \<open>0o\<close>, \<open>0b\<close> literal is converted
  exactly; anything else throws a \<open>SyntaxError\<close>.
\<close>

definition js_BigInt :: "string \<Rightarrow> js_error + int" where
  "js_BigInt str =
     (let t = rev (dropWhile js_whitespace (rev (dropWhile js_whitespace str)));
          radix = (if prefix ''0x'' t \<or> prefix ''0X'' t then 16
                   else if prefix ''0o'' t \<or> prefix ''0O'' t then 8
                   else if prefix ''0b'' t \<or> prefix ''0B'' t then 2 else 10);
          (neg, u) = (if radix = 10 then split_sign t else (False, drop 2 t))
      in if t = [] then Inr 0
         else if u \<noteq> [] \<and> list_all (is_digit radix) u
         then Inr (if neg then - digits_value radix u else digits_value radix u)
         else Inl (''Cannot convert '' @ str @ '' to a BigInt''))"

subsection \<open>Values that are a number, a bigint or undefined\<close>

text \<open>
  The decoded transaction and the node's responses are read through \<open>any\<close>: a numeric
  property holds a \<open>number\<close>, a \<open>bigint\<close>, or is absent (\<open>None\<close>).
\<close>

datatype numval = NumV jsnum | BigV int

fun nv_truthy :: "numval option \<Rightarrow> bool" where
  "nv_truthy None = False"
| "nv_truthy (Some (NumV (JFin q))) = (q \<noteq> 0)"
| "nv_truthy (Some (NumV JNaN)) = False"
| "nv_truthy (Some (NumV _)) = True"
| "nv_truthy (Some (BigV i)) = (i \<noteq> 0)"

text \<open>The operator \<open>a || b\<close>.\<close>

definition js_or :: "numval option \<Rightarrow> numval option \<Rightarrow> numval option" where
  "js_or a b = (if nv_truthy a then a else b)"

text \<open>String conversion, as \<open>.toString()\<close> and template literals perform it.\<close>

fun nv_toString :: "numval option \<Rightarrow> string" where
  "nv_toString None = ''undefined''"
| "nv_toString (Some (NumV x)) = js_toString x"
| "nv_toString (Some (BigV i)) = int_toString i"

text \<open>\<open>v === x\<close> for a number \<open>x\<close>: a bigint or an absent value is never equal to it.\<close>

fun nv_strict_eq_num :: "numval option \<Rightarrow> jsnum \<Rightarrow> bool" where
  "nv_strict_eq_num (Some (NumV y)) x = js_strict_eq y x"
| "nv_strict_eq_num _ x = False"

text \<open>The conversion \<open>Number(v)\<close>.\<close>

fun js_Number :: "numval option \<Rightarrow> jsnum" where
  "js_Number None = JNaN"
| "js_Number (Some (NumV x)) = x"
| "js_Number (Some (BigV i)) = fp_round (of_int i)"

text \<open>The comparison \<open>v > 0\<close>.\<close>

fun nv_positive :: "numval option \<Rightarrow> bool" where
  "nv_positive None = False"
| "nv_positive (Some (NumV x)) = js_lt (JFin 0) x"
| "nv_positive (Some (BigV i)) = (0 < i)"

text \<open>\<open>s.includes(p)\<close>: \<open>p\<close> occurs in \<open>s\<close> as a contiguous substring.\<close>

fun js_includes :: "string \<Rightarrow> string \<Rightarrow> bool" where
  "js_includes [] p = (p = [])"
| "js_includes (c # cs) p = (prefix p (c # cs) \<or> js_includes cs p)"

section \<open>Data model\<close>

text \<open>
  \<open>PaymentRequirements\<close> (types/state.ts): a merchant's payment demand. The interface
  declares \<open>asset\<close> a string, and \<open>payment_requirements\<close> is the record with that type.
  The builder below can also store a value there that is no string (a member of
  \<open>Object.prototype\<close>, see \<open>usdc_address_or_default\<close>), so the record is declared with
  the type of the asset value as a parameter.
\<close>

record 'asset payment_requirements_of =
  pr_scheme :: string
  pr_network :: string
  pr_asset :: 'asset
  pr_payTo :: string
  pr_maxAmountRequired :: string
  pr_resource :: string
  pr_description :: string
  pr_mimeType :: string
  pr_maxTimeoutSeconds :: jsnum
  pr_outputSchema :: "string option"
  pr_extra :: "(string \<times> string) list option"

type_synonym payment_requirements = "string payment_requirements_of"

text \<open>\<open>Price = string | number | TokenAmount\<close> (types/config.ts).\<close>

record token_amount =
  ta_value :: string
  ta_asset :: string
  ta_network :: string

datatype price = PriceString string | PriceNumber jsnum | PriceToken token_amount

text \<open>
  \<open>CreatePaymentRequirementsOptions\<close>: an optional property that is left out is \<open>None\<close>
  and takes its default in the function.
\<close>

record create_payment_requirements_options =
  opt_price :: price
  opt_payToAddress :: string
  opt_resource :: string
  opt_network :: "string option"
  opt_description :: "string option"
  opt_mimeType :: "string option"
  opt_scheme :: "string option"
  opt_maxTimeoutSeconds :: "jsnum option"
  opt_outputSchema :: "string option"
  opt_extra :: "(string \<times> string) list option"

section \<open>Payment requirements builder\<close>

text \<open>
  The table \<open>USDC_ADDRESSES\<close> of \<open>processPriceToAtomicAmount\<close> is an object literal. Its
  own properties are the four network names.
\<close>

definition USDC_ADDRESSES :: "string \<Rightarrow> string option" where
  "USDC_ADDRESSES =
     [''base'' \<mapsto> ''0x833589fCD6eDb6E08f4c7C32D4f71b54bdA02913'',
      ''base-sepolia'' \<mapsto> ''0x036CbD53842c5426634e7929541eC2318f3dCF7e'',
      ''ethereum'' \<mapsto> ''0xA0b86991c6218b36c1d19D4a2e9Eb0cE3606eB48'',
      ''polygon'' \<mapsto> ''0x2791Bca1f2de4661ED88A30C99A7a9449Aa84174'']"

text \<open>
  An object literal inherits from \<open>Object.prototype\<close>, and \<open>USDC_ADDRESSES[network]\<close> reads
  inherited properties as well as own ones. These are the property names of
  \<open>Object.prototype\<close>; the value of each is a function, or for \<open>__proto__\<close> the prototype
  object itself.
\<close>

definition object_prototype_keys :: "string list" where
  "object_prototype_keys =
     [''constructor'', ''hasOwnProperty'', ''isPrototypeOf'', ''propertyIsEnumerable'',
      ''toLocaleString'', ''toString'', ''valueOf'', ''__proto__'',
      ''__defineGetter__'', ''__defineSetter__'', ''__lookupGetter__'', ''__lookupSetter__'']"

text \<open>
  The value found in the \<open>asset\<close> field of built requirements: a string, or the member of
  \<open>Object.prototype\<close> of the given name.
\<close>

datatype asset_value = AssetString string | PrototypeMember string

text \<open>\<open>USDC_ADDRESSES[key]\<close>; \<open>None\<close> is \<open>undefined\<close>.\<close>

definition usdc_lookup :: "string \<Rightarrow> asset_value option" where
  "usdc_lookup key =
     (case USDC_ADDRESSES key of
        Some a \<Rightarrow> Some (AssetString a)
      | None \<Rightarrow> if key \<in> set object_prototype_keys then Some (PrototypeMember key) else None)"

text \<open>
  \<open>USDC_ADDRESSES[network] || USDC_ADDRESSES["base-sepolia"]\<close>: every own entry of the
  table is a non-empty string and every inherited one is a function or an object, so
  whatever the lookup finds is truthy and the second operand is taken exactly when
  \<open>network\<close> is neither a key of the table nor a property name of \<open>Object.prototype\<close>.
\<close>

definition usdc_address_or_default :: "string \<Rightarrow> asset_value" where
  "usdc_address_or_default network =
     (case usdc_lookup network of
        Some a \<Rightarrow> a
      | None \<Rightarrow> (case usdc_lookup ''base-sepolia'' of
                   Some b \<Rightarrow> b
                 | None \<Rightarrow> AssetString ''undefined''))"

record atomic_amount =
  aa_maxAmountRequired :: string
  aa_assetAddress :: asset_value
  aa_eip712Domain :: "(string \<times> string) list option"

definition usdc_eip712Domain :: "(string \<times> string) list" where
  "usdc_eip712Domain = [(''name'', ''USDC''), (''version'', ''2'')]"

text \<open>\<open>price.startsWith("$") ? price.slice(1) : price\<close>.\<close>

definition strip_dollar :: "string \<Rightarrow> string" where
  "strip_dollar p = (if prefix ''$'' p then drop 1 p else p)"

fun processPriceToAtomicAmount :: "price \<Rightarrow> string \<Rightarrow> atomic_amount" where
  "processPriceToAtomicAmount (PriceString p) network =
     (let priceStr = strip_dollar p;
          priceFloat = js_parseFloat priceStr;
          atomicAmount = js_toString (js_floor (js_mul priceFloat (JFin 1000000)));
          assetAddress = usdc_address_or_default network
      in \<lparr>aa_maxAmountRequired = atomicAmount, aa_assetAddress = assetAddress,
          aa_eip712Domain = Some usdc_eip712Domain\<rparr>)"
| "processPriceToAtomicAmount (PriceNumber x) network =
     (let atomicAmount = js_toString (js_floor (js_mul x (JFin 1000000)));
          assetAddress = usdc_address_or_default network
      in \<lparr>aa_maxAmountRequired = atomicAmount, aa_assetAddress = assetAddress,
          aa_eip712Domain = Some usdc_eip712Domain\<rparr>)"
| "processPriceToAtomicAmount (PriceToken t) network =
     \<lparr>aa_maxAmountRequired = ta_value t, aa_assetAddress = AssetString (ta_asset t), aa_eip712Domain = None\<rparr>"

definition or_default :: "'a option \<Rightarrow> 'a \<Rightarrow> 'a" where
  "or_default v d = (case v of Some x \<Rightarrow> x | None \<Rightarrow> d)"

text \<open>
  \<open>createPaymentRequirements\<close> is an \<open>async\<close> function: its result is either a rejection
  with an error message (\<open>Inl\<close>) or the requirements record (\<open>Inr\<close>). The body has no
  \<open>throw\<close> and calls nothing that throws. An \<open>extra\<close> object that is present is truthy.
\<close>

definition createPaymentRequirements ::
  "create_payment_requirements_options \<Rightarrow> js_error + asset_value payment_requirements_of" where
  "createPaymentRequirements options =
     (let network = or_default (opt_network options) ''base'';
          description = or_default (opt_description options) [];
          mimeType = or_default (opt_mimeType options) ''application/json'';
          scheme = or_default (opt_scheme options) ''exact'';
          maxTimeoutSeconds = or_default (opt_maxTimeoutSeconds options) (JFin 600);
          a = processPriceToAtomicAmount (opt_price options) network
      in Inr \<lparr>pr_scheme = scheme,
              pr_network = network,
              pr_asset = aa_assetAddress a,
              pr_payTo = opt_payToAddress options,
              pr_maxAmountRequired = aa_maxAmountRequired a,
              pr_resource = opt_resource options,
              pr_description = description,
              pr_mimeType = mimeType,
              pr_maxTimeoutSeconds = maxTimeoutSeconds,
              pr_outputSchema = opt_outputSchema options,
              pr_extra = (case opt_extra options of Some e \<Rightarrow> Some e | None \<Rightarrow> aa_eip712Domain a)\<rparr>)"

section \<open>Algorand payloads, the SDK and the node\<close>

text \<open>
  \<open>AlgorandAuthorization\<close>, \<open>AlgorandPaymentPayload\<close> and \<open>PaymentPayload\<close>
  (types/state.ts). The verifier tests \<open>signature\<close> and \<open>authorization\<close> for presence, and
  the settler reads \<open>txnId || ""\<close>, so these three may be absent.
\<close>

type_synonym bytes = string

record algorand_authorization =
  auth_from :: string
  auth_to :: string
  auth_amount :: string
  auth_assetId :: jsnum
  auth_validRounds :: jsnum
  auth_note :: "string option"

record algorand_payment_payload =
  app_signature :: "string option"
  app_authorization :: "algorand_authorization option"
  app_txnId :: "string option"

record payment_payload =
  pp_x402Version :: int
  pp_scheme :: string
  pp_network :: string
  pp_payload :: algorand_payment_payload

record verify_response =
  vr_isValid :: bool
  vr_payer :: "string option"
  vr_invalidReason :: "string option"

record settle_response =
  sr_success :: bool
  sr_transaction :: "string option"
  sr_network :: string
  sr_payer :: "string option"
  sr_errorReason :: "string option"

record algorand_account =
  acct_address :: string
  acct_privateKey :: bytes

text \<open>
  The properties of \<open>decodedSignedTxn.txn\<close> that the code reads (through \<open>any\<close>, under
  the names of several SDK versions and of the wire format). \<open>txn_from_publicKey\<close> is
  \<open>txn.from?.publicKey\<close>; \<open>txn_to\<close> is present when \<open>txn.to\<close> is, and then holds
  \<open>txn.to.publicKey || txn.to\<close>. A key that is present is truthy.
\<close>

record decoded_txn =
  txn_from_publicKey :: "bytes option"
  txn_sender :: "bytes option"
  txn_to :: "bytes option"
  txn_receiver :: "bytes option"
  txn_assetAmount :: "numval option"
  txn_amount :: "numval option"
  txn_aamt :: "numval option"
  txn_assetIndex :: "numval option"
  txn_xaid :: "numval option"
  txn_lastRound :: "numval option"
  txn_lastValid :: "numval option"
  txn_lv :: "numval option"

text \<open>The node's suggested transaction parameters, with their first and last valid round.\<close>

record suggested_params =
  sp_fee :: "numval option"
  sp_firstRound :: "numval option"
  sp_lastRound :: "numval option"
  sp_genesisID :: string
  sp_genesisHash :: string

text \<open>The argument of \<open>makeAssetTransferTxnWithSuggestedParamsFromObject\<close>.\<close>

record asset_transfer_params =
  atp_sender :: string
  atp_receiver :: string
  atp_amount :: int
  atp_assetIndex :: jsnum
  atp_suggestedParams :: suggested_params
  atp_note :: "bytes option"

text \<open>
  The functions of \<open>algosdk\<close> that the code calls are parameters of the model; each
  returns an error message (\<open>Inl\<close>) when it throws. \<open>sdk_decodeSignedTransaction\<close> takes
  the base64 text, standing for \<open>decodeSignedTransaction(Buffer.from(text, "base64"))\<close>;
  \<open>sdk_signTxn\<close> returns the base64 text of the signed bytes. \<open>'txn\<close> is the SDK's
  transaction object.
\<close>

record 'txn algosdk =
  sdk_decodeSignedTransaction :: "string \<Rightarrow> js_error + decoded_txn"
  sdk_encodeAddress :: "bytes option \<Rightarrow> js_error + string"
  sdk_makeAssetTransferTxn :: "asset_transfer_params \<Rightarrow> js_error + 'txn"
  sdk_signTxn :: "'txn \<Rightarrow> bytes \<Rightarrow> js_error + string"
  sdk_txID :: "'txn \<Rightarrow> string"

text \<open>
  The algod node is an oracle: the answer to a request depends on the client's URL, on
  the request and on the time, which is the number of requests made so far. The state
  \<open>io\<close> holds this clock and the log of the signed transactions submitted.
\<close>

record algod_status =
  st_lastRound :: "numval option"

record pending_info =
  pi_confirmedRound :: "numval option"
  pi_poolError :: "string option"

record algod =
  algod_status :: "string \<Rightarrow> nat \<Rightarrow> js_error + algod_status"
  algod_getTransactionParams :: "string \<Rightarrow> nat \<Rightarrow> js_error + suggested_params"
  algod_sendRawTransaction :: "string \<Rightarrow> nat \<Rightarrow> string \<Rightarrow> js_error + string"
  algod_pendingTransactionInformation :: "string \<Rightarrow> nat \<Rightarrow> string \<Rightarrow> js_error + pending_info"
  algod_statusAfterBlock :: "string \<Rightarrow> nat \<Rightarrow> jsnum \<Rightarrow> js_error + unit"

record io =
  io_clock :: nat
  io_sent :: "(string \<times> string) list"

definition tick :: "io \<Rightarrow> io" where
  "tick s = s\<lparr>io_clock := Suc (io_clock s)\<rparr>"

definition call_status :: "algod \<Rightarrow> string \<Rightarrow> io \<Rightarrow> (js_error + algod_status) \<times> io" where
  "call_status node client s = (algod_status node client (io_clock s), tick s)"

definition call_getTransactionParams ::
  "algod \<Rightarrow> string \<Rightarrow> io \<Rightarrow> (js_error + suggested_params) \<times> io" where
  "call_getTransactionParams node client s =
     (algod_getTransactionParams node client (io_clock s), tick s)"

definition call_sendRawTransaction ::
  "algod \<Rightarrow> string \<Rightarrow> string \<Rightarrow> io \<Rightarrow> (js_error + string) \<times> io" where
  "call_sendRawTransaction node client signedTxn s =
     (algod_sendRawTransaction node client (io_clock s) signedTxn,
      tick (s\<lparr>io_sent := io_sent s @ [(client, signedTxn)]\<rparr>))"

definition call_pendingTransactionInformation ::
  "algod \<Rightarrow> string \<Rightarrow> string \<Rightarrow> io \<Rightarrow> (js_error + pending_info) \<times> io" where
  "call_pendingTransactionInformation node client txId s =
     (algod_pendingTransactionInformation node client (io_clock s) txId, tick s)"

definition call_statusAfterBlock ::
  "algod \<Rightarrow> string \<Rightarrow> jsnum \<Rightarrow> io \<Rightarrow> (js_error + unit) \<times> io" where
  "call_statusAfterBlock node client r s =
     (algod_statusAfterBlock node client (io_clock s) r, tick s)"

section \<open>Network configuration (algorand-utils.ts)\<close>

record algorand_network_config =
  algodUrl :: string
  algodToken :: string
  indexerUrl :: string
  indexerToken :: string
  genesisId :: string
  genesisHash :: string

definition ALGORAND_NETWORKS :: "string \<Rightarrow> algorand_network_config option" where
  "ALGORAND_NETWORKS =
     [''algorand-mainnet'' \<mapsto>
        \<lparr>algodUrl = ''https://mainnet-api.algonode.cloud'', algodToken = [],
         indexerUrl = ''https://mainnet-idx.algonode.cloud'', indexerToken = [],
         genesisId = ''mainnet-v1.0'',
         genesisHash = ''wGHE2Pwdvd7S12BL5FaOP20EGYesN73ktiC1qzkkit8=''\<rparr>,
      ''algorand-testnet'' \<mapsto>
        \<lparr>algodUrl = ''https://testnet-api.algonode.cloud'', algodToken = [],
         indexerUrl = ''https://testnet-idx.algonode.cloud'', indexerToken = [],
         genesisId = ''testnet-v1.0'',
         genesisHash = ''SGO1GKSzyE7IEPItTxCByw9x8FmnrCDexi9/cOUJOiI=''\<rparr>,
      ''algorand-betanet'' \<mapsto>
        \<lparr>algodUrl = ''https://betanet-api.algonode.cloud'', algodToken = [],
         indexerUrl = ''https://betanet-idx.algonode.cloud'', indexerToken = [],
         genesisId = ''betanet-v1.0'',
         genesisHash = ''mFgazF+2uRS1tMiL9dsj01hJGySEmPN28B/TjjvpVW0=''\<rparr>]"

definition isAlgorandNetwork :: "string \<Rightarrow> bool" where
  "isAlgorandNetwork network = prefix ''algorand-'' network"

definition not_algorand_message :: "string \<Rightarrow> string" where
  "not_algorand_message network = ''Network '' @ network @ '' is not an Algorand network''"

text \<open>The client is identified by the URL it is built from (its token is empty).\<close>

definition getAlgodClient :: "string \<Rightarrow> js_error + string" where
  "getAlgodClient network =
     (if \<not> isAlgorandNetwork network then Inl (not_algorand_message network)
      else case ALGORAND_NETWORKS network of
             None \<Rightarrow> Inl (''No configuration found for network '' @ network)
           | Some config \<Rightarrow> Inr (algodUrl config))"

definition getSuggestedParams ::
  "algod \<Rightarrow> string \<Rightarrow> io \<Rightarrow> (js_error + suggested_params) \<times> io" where
  "getSuggestedParams node network s =
     (case getAlgodClient network of
        Inl e \<Rightarrow> (Inl e, s)
      | Inr client \<Rightarrow> call_getTransactionParams node client s)"

section \<open>Verification (algorand-facilitator.ts, algorand-wallet.ts)\<close>

text \<open>The expressions by which both verification functions read the decoded transaction.\<close>

text \<open>\<open>txn.from?.publicKey || txn.sender\<close>\<close>

definition txn_sender_key :: "decoded_txn \<Rightarrow> bytes option" where
  "txn_sender_key t = (case txn_from_publicKey t of Some k \<Rightarrow> Some k | None \<Rightarrow> txn_sender t)"

text \<open>
  \<open>txn.to ? encodeAddress(txn.to.publicKey || txn.to)
          : (txn.receiver ? encodeAddress(txn.receiver) : dflt)\<close>
\<close>

definition txn_to_address :: "'txn algosdk \<Rightarrow> decoded_txn \<Rightarrow> string \<Rightarrow> js_error + string" where
  "txn_to_address sdk t dflt =
     (case txn_to t of
        Some k \<Rightarrow> sdk_encodeAddress sdk (Some k)
      | None \<Rightarrow> (case txn_receiver t of
                   Some k \<Rightarrow> sdk_encodeAddress sdk (Some k)
                 | None \<Rightarrow> Inr dflt))"

text \<open>\<open>(txn.assetAmount || txn.amount || txn.aamt || 0).toString()\<close>\<close>

definition txn_amount_string :: "decoded_txn \<Rightarrow> string" where
  "txn_amount_string t =
     nv_toString (js_or (js_or (js_or (txn_assetAmount t) (txn_amount t)) (txn_aamt t))
                        (Some (NumV (JFin 0))))"

text \<open>\<open>txn.assetIndex || txn.xaid\<close>\<close>

definition txn_asset :: "decoded_txn \<Rightarrow> numval option" where
  "txn_asset t = js_or (txn_assetIndex t) (txn_xaid t)"

text \<open>\<open>Number(txn.lastRound || txn.lastValid || txn.lv)\<close>\<close>

definition txn_last_valid :: "decoded_txn \<Rightarrow> jsnum" where
  "txn_last_valid t = js_Number (js_or (js_or (txn_lastRound t) (txn_lastValid t)) (txn_lv t))"

text \<open>
  \<open>verifyAlgorandSignature\<close>: the whole body is inside \<open>try\<close>, and the handler returns
  \<open>false\<close>; so does every access that throws (an absent signature given to
  \<open>Buffer.from\<close>, a property of an absent authorization).
\<close>

definition verifyAlgorandSignature ::
  "'txn algosdk \<Rightarrow> algorand_payment_payload \<Rightarrow> string \<Rightarrow> bool" where
  "verifyAlgorandSignature sdk payload expectedSender =
     (case app_signature payload of
        None \<Rightarrow> False
      | Some sg \<Rightarrow>
     (case sdk_decodeSignedTransaction sdk sg of
        Inl e \<Rightarrow> False
      | Inr txn \<Rightarrow>
     (case sdk_encodeAddress sdk (txn_sender_key txn) of
        Inl e \<Rightarrow> False
      | Inr fromAddr \<Rightarrow>
          if fromAddr \<noteq> expectedSender then False
          else
     (case app_authorization payload of
        None \<Rightarrow> False
      | Some authorization \<Rightarrow>
     (case txn_to_address sdk txn (auth_to authorization) of
        Inl e \<Rightarrow> False
      | Inr toAddr \<Rightarrow>
          if toAddr \<noteq> auth_to authorization then False
          else
            let assetId = txn_asset txn
            in if assetId \<noteq> None \<and> nv_strict_eq_num assetId (auth_assetId authorization)
               then (if txn_amount_string txn \<noteq> auth_amount authorization then False else True)
               else True)))))"

definition verification_error :: "js_error \<Rightarrow> verify_response" where
  "verification_error e =
     \<lparr>vr_isValid = False, vr_payer = None,
      vr_invalidReason = Some (''Verification error: '' @ e)\<rparr>"

definition missing_response :: verify_response where
  "missing_response =
     \<lparr>vr_isValid = False, vr_payer = None,
      vr_invalidReason = Some ''Missing signature or authorization''\<rparr>"

definition invalid :: "string \<Rightarrow> string \<Rightarrow> verify_response" where
  "invalid payer reason =
     \<lparr>vr_isValid = False, vr_payer = Some payer, vr_invalidReason = Some reason\<rparr>"

definition recipient_mismatch :: "string \<Rightarrow> string \<Rightarrow> string" where
  "recipient_mismatch expected got = ''Recipient mismatch: expected '' @ expected @ '', got '' @ got"

definition amount_mismatch :: "string \<Rightarrow> string \<Rightarrow> string" where
  "amount_mismatch expected got = ''Amount mismatch: expected '' @ expected @ '', got '' @ got"

definition asset_mismatch :: "jsnum \<Rightarrow> numval option \<Rightarrow> string" where
  "asset_mismatch expected got =
     ''Asset ID mismatch: expected '' @ js_toString expected @ '', got '' @ nv_toString got"

definition expired_message :: "jsnum \<Rightarrow> jsnum \<Rightarrow> string" where
  "expired_message lastValidRound currentRound =
     ''Transaction expired: last valid round '' @ js_toString lastValidRound
       @ '', current round '' @ js_toString currentRound"

text \<open>
  The \<open>try\<close> block of \<open>verifyAlgorandPayment\<close>: \<open>Inl\<close> is an exception thrown in it, \<open>Inr\<close>
  a response returned from it.
\<close>

definition verify_try ::
  "'txn algosdk \<Rightarrow> algod \<Rightarrow> io \<Rightarrow> payment_payload \<Rightarrow> payment_requirements
     \<Rightarrow> (js_error + verify_response) \<times> io" where
  "verify_try sdk node s payload requirements =
     (let algorandPayload = pp_payload payload
      in case app_signature algorandPayload of
           None \<Rightarrow> (Inr missing_response, s)
         | Some sg \<Rightarrow>
             if sg = [] \<or> app_authorization algorandPayload = None
             then (Inr missing_response, s)
             else
     (case sdk_decodeSignedTransaction sdk sg of
        Inl e \<Rightarrow> (Inl e, s)
      | Inr txn \<Rightarrow>
     (case sdk_encodeAddress sdk (txn_sender_key txn) of
        Inl e \<Rightarrow> (Inl e, s)
      | Inr payer \<Rightarrow>
          if \<not> verifyAlgorandSignature sdk algorandPayload payer
          then (Inr (invalid payer ''Invalid signature''), s)
          else
     (case txn_to_address sdk txn [] of
        Inl e \<Rightarrow> (Inl e, s)
      | Inr toAddr \<Rightarrow>
          if toAddr \<noteq> pr_payTo requirements
          then (Inr (invalid payer (recipient_mismatch (pr_payTo requirements) toAddr)), s)
          else
            let txnAmount = txn_amount_string txn
            in if txnAmount \<noteq> pr_maxAmountRequired requirements
               then (Inr (invalid payer
                            (amount_mismatch (pr_maxAmountRequired requirements) txnAmount)), s)
               else
                 let expectedAssetId = js_parseInt (pr_asset requirements);
                     txnAssetId = js_or (txn_asset txn) (Some (NumV (JFin 0)))
                 in if \<not> nv_strict_eq_num txnAssetId expectedAssetId
                    then (Inr (invalid payer (asset_mismatch expectedAssetId txnAssetId)), s)
                    else
     (case getAlgodClient (pr_network requirements) of
        Inl e \<Rightarrow> (Inl e, s)
      | Inr client \<Rightarrow>
     (case call_status node client s of
        (Inl e, s1) \<Rightarrow> (Inl e, s1)
      | (Inr status, s1) \<Rightarrow>
          let currentRound = js_Number (st_lastRound status);
              lastValidRound = txn_last_valid txn
          in if js_lt lastValidRound currentRound
             then (Inr (invalid payer (expired_message lastValidRound currentRound)), s1)
             else (Inr \<lparr>vr_isValid = True, vr_payer = Some payer, vr_invalidReason = None\<rparr>,
                   s1)))))))"

text \<open>
  \<open>verifyAlgorandPayment\<close>: the network guard, then the \<open>try\<close> block, whose exceptions
  the handler turns into a response. The result is \<open>Inl\<close> if the function itself throws.
\<close>

definition verifyAlgorandPayment ::
  "'txn algosdk \<Rightarrow> algod \<Rightarrow> io \<Rightarrow> payment_payload \<Rightarrow> payment_requirements
     \<Rightarrow> (js_error + verify_response) \<times> io" where
  "verifyAlgorandPayment sdk node s payload requirements =
     (if \<not> isAlgorandNetwork (pr_network requirements)
      then (Inr \<lparr>vr_isValid = False, vr_payer = None,
                 vr_invalidReason = Some (not_algorand_message (pr_network requirements))\<rparr>, s)
      else case verify_try sdk node s payload requirements of
             (Inr response, s1) \<Rightarrow> (Inr response, s1)
           | (Inl e, s1) \<Rightarrow> (Inr (verification_error e), s1))"

section \<open>Confirmation and settlement\<close>

text \<open>
  One pass through the \<open>try\<close>/\<open>catch\<close> of the polling loop of \<open>waitForConfirmation\<close>. An
  error whose message contains \<open>not found\<close> is swallowed, be it the request's or the
  \<open>Transaction rejected\<close> error thrown inside the \<open>try\<close>.
\<close>

datatype poll = Confirmed pending_info | Failed js_error | Waiting

definition poll_pending :: "js_error + pending_info \<Rightarrow> poll" where
  "poll_pending res =
     (case (case res of
              Inl e \<Rightarrow> Inl e
            | Inr pendingInfo \<Rightarrow>
                if nv_positive (pi_confirmedRound pendingInfo) then Inr (Some pendingInfo)
                else (case pi_poolError pendingInfo of
                        None \<Rightarrow> Inr None
                      | Some poolError \<Rightarrow>
                          if poolError \<noteq> [] then Inl (''Transaction rejected: '' @ poolError)
                          else Inr None)) of
        Inr (Some pendingInfo) \<Rightarrow> Confirmed pendingInfo
      | Inr None \<Rightarrow> Waiting
      | Inl e \<Rightarrow> if js_includes e ''not found'' then Waiting else Failed e)"

text \<open>
  The loop \<open>while (currentRound < startRound + timeout)\<close>. It need not end (a counter of
  \<open>2^53\<close> or more is not changed by \<open>currentRound++\<close>, and \<open>timeout\<close> may be infinite), so
  its result is optional: \<open>None\<close> stands for a loop that runs forever.
\<close>

partial_function (option) wait_loop ::
  "algod \<Rightarrow> string \<Rightarrow> string \<Rightarrow> jsnum \<Rightarrow> jsnum \<Rightarrow> jsnum \<Rightarrow> io
     \<Rightarrow> ((js_error + pending_info) \<times> io) option" where
  "wait_loop node client txId startRound timeout currentRound s =
     (if js_lt currentRound (js_add startRound timeout)
      then (case call_pendingTransactionInformation node client txId s of
              (res, s1) \<Rightarrow>
                (case poll_pending res of
                   Confirmed pendingInfo \<Rightarrow> Some (Inr pendingInfo, s1)
                 | Failed e \<Rightarrow> Some (Inl e, s1)
                 | Waiting \<Rightarrow>
                     (case call_statusAfterBlock node client currentRound s1 of
                        (Inl e, s2) \<Rightarrow> Some (Inl e, s2)
                      | (Inr u, s2) \<Rightarrow>
                          wait_loop node client txId startRound timeout
                            (js_add currentRound (JFin 1)) s2)))
      else Some (Inl (''Transaction not confirmed after '' @ js_toString timeout @ '' rounds''), s))"

declare wait_loop.simps [code]

definition waitForConfirmation ::
  "algod \<Rightarrow> string \<Rightarrow> string \<Rightarrow> jsnum option \<Rightarrow> io
     \<Rightarrow> ((js_error + pending_info) \<times> io) option" where
  "waitForConfirmation node network txId timeout_opt s =
     (let timeout = or_default timeout_opt (JFin 10)
      in case getAlgodClient network of
           Inl e \<Rightarrow> Some (Inl e, s)
         | Inr client \<Rightarrow>
             (case call_status node client s of
                (Inl e, s1) \<Rightarrow> Some (Inl e, s1)
              | (Inr status, s1) \<Rightarrow>
                  let startRound = js_Number (st_lastRound status)
                  in wait_loop node client txId startRound timeout startRound s1))"

text \<open>\<open>Math.ceil(maxTimeoutSeconds / 4.5)\<close>: seconds to rounds.\<close>

definition rounds_of_seconds :: "jsnum \<Rightarrow> jsnum" where
  "rounds_of_seconds seconds = js_ceil (js_div_const seconds (9 / 2))"

definition settle_failure :: "string \<Rightarrow> string option \<Rightarrow> string \<Rightarrow> settle_response" where
  "settle_failure network payer reason =
     \<lparr>sr_success = False, sr_transaction = None, sr_network = network, sr_payer = payer,
      sr_errorReason = Some reason\<rparr>"

text \<open>
  The submission of \<open>settleAlgorandPayment\<close> with its handler: an error whose message
  contains \<open>already in ledger\<close> gives \<open>algorandPayload.txnId || ""\<close>, any other error is
  thrown again.
\<close>

definition submit_or_recover ::
  "algod \<Rightarrow> string \<Rightarrow> algorand_payment_payload \<Rightarrow> string \<Rightarrow> io \<Rightarrow> (js_error + string) \<times> io" where
  "submit_or_recover node client algorandPayload signedTxn s =
     (case call_sendRawTransaction node client signedTxn s of
        (Inr txid, s1) \<Rightarrow> (Inr txid, s1)
      | (Inl e, s1) \<Rightarrow>
          if js_includes e ''already in ledger''
          then (Inr (case app_txnId algorandPayload of
                       None \<Rightarrow> []
                     | Some t \<Rightarrow> t), s1)
          else (Inl e, s1))"

text \<open>
  \<open>settleAlgorandPayment\<close>. The result is \<open>None\<close> when the confirmation loop does not
  end, and \<open>Inl\<close> if the function itself throws. An exception inside the outer \<open>try\<close>
  becomes a \<open>Settlement error\<close> response. (\<open>Buffer.from\<close> throws on an absent signature;
  after a successful verification the signature is present.)
\<close>

definition settleAlgorandPayment ::
  "'txn algosdk \<Rightarrow> algod \<Rightarrow> io \<Rightarrow> payment_payload \<Rightarrow> payment_requirements
     \<Rightarrow> ((js_error + settle_response) \<times> io) option" where
  "settleAlgorandPayment sdk node s payload requirements =
     (let network = pr_network requirements
      in if \<not> isAlgorandNetwork network
         then Some (Inr (settle_failure network None (not_algorand_message network)), s)
         else
           let algorandPayload = pp_payload payload
           in case verifyAlgorandPayment sdk node s payload requirements of
                (Inl e, s1) \<Rightarrow>
                  Some (Inr (settle_failure network None (''Settlement error: '' @ e)), s1)
              | (Inr verifyResult, s1) \<Rightarrow>
                  if \<not> vr_isValid verifyResult
                  then Some (Inr (settle_failure network (vr_payer verifyResult)
                                    (''Verification failed: ''
                                       @ (case vr_invalidReason verifyResult of
                                            None \<Rightarrow> ''undefined''
                                          | Some reason \<Rightarrow> reason))), s1)
                  else
     (case getAlgodClient network of
        Inl e \<Rightarrow> Some (Inr (settle_failure network None (''Settlement error: '' @ e)), s1)
      | Inr client \<Rightarrow>
     (case app_signature algorandPayload of
        None \<Rightarrow>
          Some (Inr (settle_failure network None
                       (''Settlement error: The first argument must be of type string'')), s1)
      | Some signedTxn \<Rightarrow>
     (case submit_or_recover node client algorandPayload signedTxn s1 of
        (Inl e, s2) \<Rightarrow>
          Some (Inr (settle_failure network None (''Settlement error: '' @ e)), s2)
      | (Inr txId, s2) \<Rightarrow>
     (case waitForConfirmation node network txId
             (Some (rounds_of_seconds (pr_maxTimeoutSeconds requirements))) s2 of
        None \<Rightarrow> None
      | Some (Inl e, s3) \<Rightarrow>
          Some (Inr (settle_failure network (vr_payer verifyResult)
                       (''Transaction submission succeeded but confirmation failed: '' @ e)), s3)
      | Some (Inr pendingInfo, s3) \<Rightarrow>
          Some (Inr \<lparr>sr_success = True, sr_transaction = Some txId, sr_network = network,
                     sr_payer = vr_payer verifyResult, sr_errorReason = None\<rparr>, s3))))))"

section \<open>Signing\<close>

text \<open>\<open>requirements.description ? new TextEncoder().encode(requirements.description) : undefined\<close>\<close>

definition note_of :: "string \<Rightarrow> bytes option" where
  "note_of description = (if description \<noteq> [] then Some description else None)"

text \<open>
  The object that \<open>processAlgorandPayment\<close> gives to the SDK's transaction constructor:
  the suggested parameters are passed on as the node returned them.
\<close>

definition transfer_params ::
  "payment_requirements \<Rightarrow> algorand_account \<Rightarrow> int \<Rightarrow> jsnum \<Rightarrow> suggested_params
     \<Rightarrow> asset_transfer_params" where
  "transfer_params requirements account amount assetId suggestedParams =
     \<lparr>atp_sender = acct_address account,
      atp_receiver = pr_payTo requirements,
      atp_amount = amount,
      atp_assetIndex = assetId,
      atp_suggestedParams = suggestedParams,
      atp_note = note_of (pr_description requirements)\<rparr>"

text \<open>\<open>processAlgorandPayment\<close> (algorand-wallet.ts). \<open>maxValue\<close> is optional.\<close>

definition exceeds_max_value :: "payment_requirements \<Rightarrow> jsnum option \<Rightarrow> js_error option" where
  "exceeds_max_value requirements maxValue =
     (case maxValue of
        None \<Rightarrow> None
      | Some mv \<Rightarrow>
          let requiredAmount = js_parseInt (pr_maxAmountRequired requirements)
          in if js_lt mv requiredAmount
             then Some (''Payment amount '' @ js_toString requiredAmount
                          @ '' exceeds max value '' @ js_toString mv)
             else None)"

definition processAlgorandPayment ::
  "'txn algosdk \<Rightarrow> algod \<Rightarrow> io \<Rightarrow> payment_requirements \<Rightarrow> algorand_account \<Rightarrow> jsnum option
     \<Rightarrow> (js_error + payment_payload) \<times> io" where
  "processAlgorandPayment sdk node s requirements account maxValue =
     (if \<not> isAlgorandNetwork (pr_network requirements)
      then (Inl (not_algorand_message (pr_network requirements)), s)
      else
     (case exceeds_max_value requirements maxValue of
        Some e \<Rightarrow> (Inl e, s)
      | None \<Rightarrow>
     (case getSuggestedParams node (pr_network requirements) s of
        (Inl e, s1) \<Rightarrow> (Inl e, s1)
      | (Inr suggestedParams, s1) \<Rightarrow>
          let assetId = js_parseInt (pr_asset requirements);
              authorization =
                \<lparr>auth_from = acct_address account,
                 auth_to = pr_payTo requirements,
                 auth_amount = pr_maxAmountRequired requirements,
                 auth_assetId = assetId,
                 auth_validRounds = rounds_of_seconds (pr_maxTimeoutSeconds requirements),
                 auth_note = Some (pr_description requirements)\<rparr>
          in
     (case js_BigInt (pr_maxAmountRequired requirements) of
        Inl e \<Rightarrow> (Inl e, s1)
      | Inr amount \<Rightarrow>
     (case sdk_makeAssetTransferTxn sdk
             (transfer_params requirements account amount assetId suggestedParams) of
        Inl e \<Rightarrow> (Inl e, s1)
      | Inr txn \<Rightarrow>
     (case sdk_signTxn sdk txn (acct_privateKey account) of
        Inl e \<Rightarrow> (Inl e, s1)
      | Inr signature \<Rightarrow>
          (Inr \<lparr>pp_x402Version = 1,
                pp_scheme = pr_scheme requirements,
                pp_network = pr_network requirements,
                pp_payload = \<lparr>app_signature = Some signature,
                              app_authorization = Some authorization,
                              app_txnId = Some (sdk_txID sdk txn)\<rparr>\<rparr>, s1)))))))"

text \<open>
  \<open>AlgorandLocalWallet.signPayment\<close> (client agent), from the computation of
  \<open>validRounds\<close> on: the parameters it gives to the SDK's transaction constructor, for
  the first accepted option, the wallet's address and the parameters the node suggested.
  The sum \<open>suggestedParams.firstRound + validRounds\<close> is \<open>NaN\<close> for an absent first round
  and throws for a bigint.
\<close>

fun js_plus_number :: "numval option \<Rightarrow> jsnum \<Rightarrow> js_error + jsnum" where
  "js_plus_number None y = Inr JNaN"
| "js_plus_number (Some (NumV x)) y = Inr (js_add x y)"
| "js_plus_number (Some (BigV i)) y =
     Inl ''Cannot mix BigInt and other types, use explicit conversions''"

definition signPayment_params ::
  "payment_requirements \<Rightarrow> string \<Rightarrow> suggested_params \<Rightarrow> js_error + asset_transfer_params" where
  "signPayment_params paymentOption address suggestedParams =
     (let assetId = js_parseInt (pr_asset paymentOption);
          merchantAddress = pr_payTo paymentOption
      in (case js_BigInt (pr_maxAmountRequired paymentOption) of
            Inl e \<Rightarrow> Inl e
          | Inr amountRequired \<Rightarrow>
              (let validRounds = rounds_of_seconds (pr_maxTimeoutSeconds paymentOption)
               in (case js_plus_number (sp_firstRound suggestedParams) validRounds of
                     Inl e \<Rightarrow> Inl e
                   | Inr lastRound \<Rightarrow>
                       Inr \<lparr>atp_sender = address,
                            atp_receiver = merchantAddress,
                            atp_amount = amountRequired,
                            atp_assetIndex = assetId,
                            atp_suggestedParams =
                              suggestedParams\<lparr>sp_lastRound := Some (NumV lastRound)\<rparr>,
                            atp_note = note_of (pr_description paymentOption)\<rparr>))))"

section \<open>Notions used to state the properties\<close>

text \<open>
  The decoded envelope of a payload and its sender's address, when the payload carries a
  signature and an authorization, the signature decodes and the sender key encodes.
\<close>

definition envelope :: "'txn algosdk \<Rightarrow> payment_payload \<Rightarrow> (decoded_txn \<times> string) option" where
  "envelope sdk payload =
     (case app_signature (pp_payload payload) of
        None \<Rightarrow> None
      | Some sg \<Rightarrow>
          if sg = [] \<or> app_authorization (pp_payload payload) = None then None
          else (case sdk_decodeSignedTransaction sdk sg of
                  Inl e \<Rightarrow> None
                | Inr txn \<Rightarrow>
                    (case sdk_encodeAddress sdk (txn_sender_key txn) of
                       Inl e \<Rightarrow> None
                     | Inr payer \<Rightarrow> Some (txn, payer))))"

section \<open>A stub SDK and a stub node\<close>

text \<open>
  A stub SDK that knows one signed envelope, \<open>stub_signature\<close>, which decodes to a given
  transaction; an address is its key with a prefix; the transaction object is the
  constructor's argument.
\<close>

definition stub_signature :: string where
  "stub_signature = ''gqNzaWfEQHN0dWItc2lnbmVkLXRyYW5zZmVy''"

definition stub_sdk :: "decoded_txn \<Rightarrow> asset_transfer_params algosdk" where
  "stub_sdk d =
     \<lparr>sdk_decodeSignedTransaction =
        (\<lambda>text. if text = stub_signature then Inr d
                else Inl ''Invalid msgpack: unexpected end of data''),
      sdk_encodeAddress =
        (\<lambda>key. case key of
                 None \<Rightarrow> Inl ''address seems to be malformed''
               | Some k \<Rightarrow> Inr (''ADDR-'' @ k)),
      sdk_makeAssetTransferTxn = (\<lambda>params. Inr params),
      sdk_signTxn = (\<lambda>txn key. Inr stub_signature),
      sdk_txID = (\<lambda>txn. ''TXID52OKLM'')\<rparr>"

definition stub_txn :: decoded_txn where
  "stub_txn =
     \<lparr>txn_from_publicKey = Some ''PAYER'',
      txn_sender = None,
      txn_to = Some ''MERCHANT'',
      txn_receiver = None,
      txn_assetAmount = None,
      txn_amount = Some (BigV 10000),
      txn_aamt = None,
      txn_assetIndex = Some (NumV (JFin 10458941)),
      txn_xaid = None,
      txn_lastRound = Some (NumV (JFin 2000)),
      txn_lastValid = None,
      txn_lv = None\<rparr>"

definition stub_params :: suggested_params where
  "stub_params =
     \<lparr>sp_fee = Some (NumV (JFin 1000)),
      sp_firstRound = Some (NumV (JFin 1000)),
      sp_lastRound = Some (NumV (JFin 2000)),
      sp_genesisID = ''testnet-v1.0'',
      sp_genesisHash = ''SGO1GKSzyE7IEPItTxCByw9x8FmnrCDexi9/cOUJOiI=''\<rparr>"

text \<open>
  A stub node at round 1000 that suggests the rounds 1000 to 2000, accepts a submission
  and reports it confirmed at the first poll.
\<close>

definition stub_node :: algod where
  "stub_node =
     \<lparr>algod_status = (\<lambda>url t. Inr \<lparr>st_lastRound = Some (NumV (JFin 1000))\<rparr>),
      algod_getTransactionParams = (\<lambda>url t. Inr stub_params),
      algod_sendRawTransaction = (\<lambda>url t signedTxn. Inr ''TXID52OKLM''),
      algod_pendingTransactionInformation =
        (\<lambda>url t txId. Inr \<lparr>pi_confirmedRound = Some (NumV (JFin 1001)), pi_poolError = None\<rparr>),
      algod_statusAfterBlock = (\<lambda>url t r. Inr ())\<rparr>"

definition io0 :: io where
  "io0 = \<lparr>io_clock = 0, io_sent = []\<rparr>"

definition stub_account :: algorand_account where
  "stub_account = \<lparr>acct_address = ''ADDR-PAYER'', acct_privateKey = ''secret-key''\<rparr>"

text \<open>The requirements of the specification's Algorand scenario.\<close>

definition stub_requirements :: payment_requirements where
  "stub_requirements =
     \<lparr>pr_scheme = ''exact'',
      pr_network = ''algorand-testnet'',
      pr_asset = ''10458941'',
      pr_payTo = ''ADDR-MERCHANT'',
      pr_maxAmountRequired = ''10000'',
      pr_resource = ''/test-payment'',
      pr_description = ''Test payment'',
      pr_mimeType = ''application/json'',
      pr_maxTimeoutSeconds = JFin 600,
      pr_outputSchema = None,
      pr_extra = None\<rparr>"

definition stub_authorization :: algorand_authorization where
  "stub_authorization =
     \<lparr>auth_from = ''ADDR-PAYER'',
      auth_to = ''ADDR-MERCHANT'',
      auth_amount = ''10000'',
      auth_assetId = JFin 10458941,
      auth_validRounds = JFin 134,
      auth_note = Some ''Test payment''\<rparr>"

definition stub_payload :: payment_payload where
  "stub_payload =
     \<lparr>pp_x402Version = 1,
      pp_scheme = ''exact'',
      pp_network = ''algorand-testnet'',
      pp_payload = \<lparr>app_signature = Some stub_signature,
                    app_authorization = Some stub_authorization,
                    app_txnId = Some ''TXID52OKLM''\<rparr>\<rparr>"

text \<open>
  A transfer with asset index 0, and a payload for it whose authorization states another
  amount than the signed transaction.
\<close>

definition algo_txn :: decoded_txn where
  "algo_txn = stub_txn\<lparr>txn_assetIndex := Some (NumV (JFin 0))\<rparr>"

definition algo_payload :: payment_payload where
  "algo_payload =
     stub_payload\<lparr>pp_payload :=
       (pp_payload stub_payload)\<lparr>app_authorization :=
          Some (stub_authorization\<lparr>auth_assetId := JFin 0, auth_amount := ''5''\<rparr>)\<rparr>\<rparr>"

definition algo_requirements :: payment_requirements where
  "algo_requirements = stub_requirements\<lparr>pr_asset := ''0''\<rparr>"

text \<open>A node that has the transaction in its ledger already and refuses to take it again.\<close>

definition ledger_node :: algod where
  "ledger_node =
     stub_node\<lparr>algod_sendRawTransaction :=
       (\<lambda>url t signedTxn.
          Inl ''TransactionPool.Remember: transaction already in ledger: TXID52OKLM'')\<rparr>"

text \<open>
  An SDK stub whose signed envelope shows the first and last valid round of the
  transaction that was signed.
\<close>

definition rounds_sdk :: "asset_transfer_params algosdk" where
  "rounds_sdk =
     (stub_sdk stub_txn)\<lparr>sdk_signTxn :=
       (\<lambda>txn key. Inr (''valid rounds '' @ nv_toString (sp_firstRound (atp_suggestedParams txn))
                          @ '' to '' @ nv_toString (sp_lastRound (atp_suggestedParams txn))))\<rparr>"

text \<open>
  Requirements whose amount is written with leading zeros (as a \<open>TokenAmount\<close> price
  passes it through), the transaction signed for them and the payload of that
  transaction.
\<close>

definition padded_requirements :: payment_requirements where
  "padded_requirements = stub_requirements\<lparr>pr_maxAmountRequired := ''007''\<rparr>"

definition padded_txn :: decoded_txn where
  "padded_txn = stub_txn\<lparr>txn_amount := Some (BigV 7)\<rparr>"

definition padded_payload :: payment_payload where
  "padded_payload =
     stub_payload\<lparr>pp_payload :=
       (pp_payload stub_payload)\<lparr>app_authorization :=
          Some (stub_authorization\<lparr>auth_amount := ''007''\<rparr>)\<rparr>\<rparr>"

text \<open>
  An SDK stub with the interface that \<open>processAlgorandPayment\<close> is written against: the
  transaction constructor takes \<open>sender\<close> and \<open>receiver\<close>. In that generation of the SDK
  the decoded transaction has \<open>sender\<close> as an address object and the last valid round as
  the bigint \<open>lastValid\<close>; receiver, amount and asset index are under \<open>assetTransfer\<close>,
  which \<open>verifyAlgorandPayment\<close> does not read, and there is no \<open>from\<close>, \<open>to\<close>, \<open>amount\<close>,
  \<open>assetIndex\<close> or \<open>lastRound\<close>. \<open>encodeAddress\<close> takes a byte array and throws on
  anything else, so on the address object that \<open>txn.sender\<close> is.
\<close>

definition sdk_v3_txn :: decoded_txn where
  "sdk_v3_txn =
     \<lparr>txn_from_publicKey = None,
      txn_sender = Some ''PAYER'',
      txn_to = None,
      txn_receiver = None,
      txn_assetAmount = None,
      txn_amount = None,
      txn_aamt = None,
      txn_assetIndex = None,
      txn_xaid = None,
      txn_lastRound = None,
      txn_lastValid = Some (BigV 2000),
      txn_lv = None\<rparr>"

definition sdk_v3 :: "asset_transfer_params algosdk" where
  "sdk_v3 =
     \<lparr>sdk_decodeSignedTransaction =
        (\<lambda>text. if text = stub_signature then Inr sdk_v3_txn
                else Inl ''Invalid msgpack: unexpected end of data''),
      sdk_encodeAddress =
        (\<lambda>key. case key of
                 None \<Rightarrow> Inl ''undefined is not Uint8Array, type undefined''
               | Some k \<Rightarrow> Inl (''ADDR-'' @ k @ '' is not Uint8Array, type object'')),
      sdk_makeAssetTransferTxn = (\<lambda>params. Inr params),
      sdk_signTxn = (\<lambda>txn key. Inr stub_signature),
      sdk_txID = (\<lambda>txn. ''TXID52OKLM'')\<rparr>"

text \<open>
  The options of the repository's payment test (test-algorand-payment.ts), which goes on
  to print the resulting asset as the USDC ASA id of the Algorand test network.
\<close>

definition algorand_test_options :: create_payment_requirements_options where
  "algorand_test_options =
     \<lparr>opt_price = PriceString ''$0.01'',
      opt_payToAddress = ''GD64YIY3TWGDMCNPP553DZPPR6LDUSFQOIJVFDPPXWEG3FVOJCCDBBHU5A'',
      opt_resource = ''/test-payment'',
      opt_network = Some ''algorand-testnet'',
      opt_description = Some ''Test payment - self transfer'',
      opt_mimeType = None,
      opt_scheme = None,
      opt_maxTimeoutSeconds = None,
      opt_outputSchema = None,
      opt_extra = None\<rparr>"

section \<open>Properties\<close>

subsection \<open>Properties of the builder\<close>

lemma usdc_address_or_default_table:
  "USDC_ADDRESSES n = Some a \<Longrightarrow> usdc_address_or_default n = AssetString a"
  by (simp add: usdc_address_or_default_def usdc_lookup_def)

lemma usdc_address_or_default_fallback:
  "USDC_ADDRESSES n = None \<Longrightarrow> n \<notin> set object_prototype_keys \<Longrightarrow>
   usdc_address_or_default n = AssetString ''0x036CbD53842c5426634e7929541eC2318f3dCF7e''"
  by (simp add: usdc_address_or_default_def usdc_lookup_def USDC_ADDRESSES_def)

text \<open>
  A network string that names a property of \<open>Object.prototype\<close> finds that property:
  there is no fallback, and the asset is not a string.
\<close>

lemma usdc_address_or_default_inherited:
  "n \<in> set object_prototype_keys \<Longrightarrow> usdc_address_or_default n = PrototypeMember n"
  by (auto simp: usdc_address_or_default_def usdc_lookup_def USDC_ADDRESSES_def
                 object_prototype_keys_def)

lemma usdc_address_or_default_constructor:
  "usdc_address_or_default ''constructor'' = PrototypeMember ''constructor''"
  by (simp add: usdc_address_or_default_def usdc_lookup_def USDC_ADDRESSES_def
                object_prototype_keys_def)

text \<open>
  For a currency string or a number the amount is the printed floor of the parsed price
  times \<open>1_000_000\<close>, and the asset is the table's entry for a network of the table.
\<close>

lemma createPaymentRequirements_string_price:
  assumes "opt_price options = PriceString p"
  shows "\<exists>r. createPaymentRequirements options = Inr r
           \<and> pr_maxAmountRequired r
               = js_toString (js_floor (js_mul (js_parseFloat (strip_dollar p)) (JFin 1000000)))
           \<and> pr_asset r = usdc_address_or_default (or_default (opt_network options) ''base'')"
  using assms by (simp add: createPaymentRequirements_def Let_def)

lemma createPaymentRequirements_number_price:
  assumes "opt_price options = PriceNumber x"
  shows "\<exists>r. createPaymentRequirements options = Inr r
           \<and> pr_maxAmountRequired r = js_toString (js_floor (js_mul x (JFin 1000000)))
           \<and> pr_asset r = usdc_address_or_default (or_default (opt_network options) ''base'')"
  using assms by (simp add: createPaymentRequirements_def Let_def)

text \<open>
  Claim C1. For a currency-string price and a supported network the builder returns the
  printed floor of the price times \<open>1_000_000\<close> as \<open>maxAmountRequired\<close>, and the asset
  configured for the network: on the Algorand networks the USDC ASA index
  (\<open>10458941\<close> on the test network), not an EVM contract address.
  On the test's own options the amount is as claimed, but the asset returned is the
  contract address of \<open>base-sepolia\<close>: the table has no Algorand entry and the lookup
  falls back.
\<close>

theorem createPaymentRequirements_algorand_testnet:
  "createPaymentRequirements algorand_test_options =
     Inr \<lparr>pr_scheme = ''exact'',
          pr_network = ''algorand-testnet'',
          pr_asset = AssetString ''0x036CbD53842c5426634e7929541eC2318f3dCF7e'',
          pr_payTo = ''GD64YIY3TWGDMCNPP553DZPPR6LDUSFQOIJVFDPPXWEG3FVOJCCDBBHU5A'',
          pr_maxAmountRequired = ''10000'',
          pr_resource = ''/test-payment'',
          pr_description = ''Test payment - self transfer'',
          pr_mimeType = ''application/json'',
          pr_maxTimeoutSeconds = JFin 600,
          pr_outputSchema = None,
          pr_extra = Some [(''name'', ''USDC''), (''version'', ''2'')]\<rparr>"
  by code_simp

lemma atomic_amount_negative_one:
  "js_toString (js_floor (js_mul (js_parseFloat (strip_dollar ''-1'')) (JFin 1000000))) = ''-1000000''"
  by code_simp

lemma atomic_amount_negative_number:
  "js_toString (js_floor (js_mul (JFin (- 5 / 2)) (JFin 1000000))) = ''-2500000''"
  by code_simp

lemma atomic_amount_NaN:
  "js_toString (js_floor (js_mul JNaN (JFin 1000000))) = ''NaN''"
  by simp

lemma atomic_amount_zero:
  "js_toString (js_floor (js_mul (JFin 0) (JFin 1000000))) = ''0''"
  by (simp add: fp_round_def)

lemma parseFloat_abc: "js_parseFloat (strip_dollar ''abc'') = JNaN"
  by code_simp

text \<open>
  Claim C8. A negative or non-numeric price makes the builder fail with
  \<open>InvalidPrice\<close> instead of returning a record.
  The builder has no validation: a negative price and a non-numeric one both return a
  record, with a negative amount and with the amount \<open>NaN\<close>.
\<close>

theorem createPaymentRequirements_invalid_price_counterexample:
  "(\<exists>r. createPaymentRequirements (algorand_test_options\<lparr>opt_price := PriceString ''-1''\<rparr>) = Inr r
        \<and> pr_maxAmountRequired r = ''-1000000'')
   \<and> (\<exists>r. createPaymentRequirements (algorand_test_options\<lparr>opt_price := PriceNumber (JFin (- 5 / 2))\<rparr>) = Inr r
        \<and> pr_maxAmountRequired r = ''-2500000'')
   \<and> (\<exists>r. createPaymentRequirements (algorand_test_options\<lparr>opt_price := PriceString ''abc''\<rparr>) = Inr r
        \<and> pr_maxAmountRequired r = ''NaN'')"
proof (intro conjI)
  have p: "opt_price (algorand_test_options\<lparr>opt_price := PriceString ''-1''\<rparr>) = PriceString ''-1''"
    by simp
  from createPaymentRequirements_string_price [OF p]
  show "\<exists>r. createPaymentRequirements (algorand_test_options\<lparr>opt_price := PriceString ''-1''\<rparr>) = Inr r
        \<and> pr_maxAmountRequired r = ''-1000000''"
    unfolding atomic_amount_negative_one by blast
next
  have p: "opt_price (algorand_test_options\<lparr>opt_price := PriceNumber (JFin (- 5 / 2))\<rparr>)
             = PriceNumber (JFin (- 5 / 2))"
    by simp
  from createPaymentRequirements_number_price [OF p]
  show "\<exists>r. createPaymentRequirements (algorand_test_options\<lparr>opt_price := PriceNumber (JFin (- 5 / 2))\<rparr>) = Inr r
        \<and> pr_maxAmountRequired r = ''-2500000''"
    unfolding atomic_amount_negative_number by blast
next
  have p: "opt_price (algorand_test_options\<lparr>opt_price := PriceString ''abc''\<rparr>) = PriceString ''abc''"
    by simp
  from createPaymentRequirements_string_price [OF p]
  show "\<exists>r. createPaymentRequirements (algorand_test_options\<lparr>opt_price := PriceString ''abc''\<rparr>) = Inr r
        \<and> pr_maxAmountRequired r = ''NaN''"
    unfolding parseFloat_abc atomic_amount_NaN by blast
qed

text \<open>
  Claim C8, as the code has it. The builder never fails, whatever the price: it returns
  a record whose amount is the printed floor of the price times \<open>1_000_000\<close>, which is
  \<open>NaN\<close> for a string that does not parse as a number and \<open>0\<close> for the price 0; a token
  amount passes through.
\<close>

theorem createPaymentRequirements_never_rejects:
  "\<exists>r. createPaymentRequirements options = Inr r
     \<and> (\<forall>p. opt_price options = PriceString p \<longrightarrow>
            pr_maxAmountRequired r
              = js_toString (js_floor (js_mul (js_parseFloat (strip_dollar p)) (JFin 1000000))))
     \<and> (\<forall>x. opt_price options = PriceNumber x \<longrightarrow>
            pr_maxAmountRequired r = js_toString (js_floor (js_mul x (JFin 1000000))))
     \<and> (\<forall>t. opt_price options = PriceToken t \<longrightarrow> pr_maxAmountRequired r = ta_value t)
     \<and> (\<forall>p. opt_price options = PriceString p \<and> js_parseFloat (strip_dollar p) = JNaN \<longrightarrow>
            pr_maxAmountRequired r = ''NaN'')
     \<and> (opt_price options = PriceNumber (JFin 0) \<longrightarrow> pr_maxAmountRequired r = ''0'')"
  by (cases "opt_price options")
     (auto simp: createPaymentRequirements_def Let_def fp_round_def)

theorem createPaymentRequirements_never_rejects_witness:
  "\<exists>r. createPaymentRequirements (algorand_test_options\<lparr>opt_price := PriceString ''abc''\<rparr>) = Inr r
     \<and> pr_maxAmountRequired r = ''NaN''"
proof -
  from createPaymentRequirements_never_rejects
         [of "algorand_test_options\<lparr>opt_price := PriceString ''abc''\<rparr>"]
  obtain r where r: "createPaymentRequirements (algorand_test_options\<lparr>opt_price := PriceString ''abc''\<rparr>) = Inr r"
    and nan: "\<forall>p. opt_price (algorand_test_options\<lparr>opt_price := PriceString ''abc''\<rparr>) = PriceString p
                  \<and> js_parseFloat (strip_dollar p) = JNaN \<longrightarrow> pr_maxAmountRequired r = ''NaN''"
    by blast
  from nan have "pr_maxAmountRequired r = ''NaN''"
    by (simp add: parseFloat_abc)
  with r show ?thesis by blast
qed

subsection \<open>Properties of the verifier\<close>

lemma envelopeD:
  assumes "envelope sdk payload = Some (txn, payer)"
  obtains sg a where
    "app_signature (pp_payload payload) = Some sg" "sg \<noteq> []"
    "app_authorization (pp_payload payload) = Some a"
    "sdk_decodeSignedTransaction sdk sg = Inr txn"
    "sdk_encodeAddress sdk (txn_sender_key txn) = Inr payer"
  using assms
  by (auto simp: envelope_def split: option.splits sum.splits if_splits)

text \<open>After decoding, the \<open>try\<close> block is a list of checks, each returning at once.\<close>

lemma verify_try_envelope:
  assumes "envelope sdk payload = Some (txn, payer)"
  shows "verify_try sdk node s payload requirements =
     (if \<not> verifyAlgorandSignature sdk (pp_payload payload) payer
      then (Inr (invalid payer ''Invalid signature''), s)
      else
     (case txn_to_address sdk txn [] of
        Inl e \<Rightarrow> (Inl e, s)
      | Inr toAddr \<Rightarrow>
          if toAddr \<noteq> pr_payTo requirements
          then (Inr (invalid payer (recipient_mismatch (pr_payTo requirements) toAddr)), s)
          else if txn_amount_string txn \<noteq> pr_maxAmountRequired requirements
          then (Inr (invalid payer
                       (amount_mismatch (pr_maxAmountRequired requirements)
                          (txn_amount_string txn))), s)
          else if \<not> nv_strict_eq_num (js_or (txn_asset txn) (Some (NumV (JFin 0))))
                      (js_parseInt (pr_asset requirements))
          then (Inr (invalid payer
                       (asset_mismatch (js_parseInt (pr_asset requirements))
                          (js_or (txn_asset txn) (Some (NumV (JFin 0)))))), s)
          else
     (case getAlgodClient (pr_network requirements) of
        Inl e \<Rightarrow> (Inl e, s)
      | Inr client \<Rightarrow>
     (case call_status node client s of
        (Inl e, s1) \<Rightarrow> (Inl e, s1)
      | (Inr status, s1) \<Rightarrow>
          if js_lt (txn_last_valid txn) (js_Number (st_lastRound status))
          then (Inr (invalid payer (expired_message (txn_last_valid txn)
                                      (js_Number (st_lastRound status)))), s1)
          else (Inr \<lparr>vr_isValid = True, vr_payer = Some payer, vr_invalidReason = None\<rparr>,
                s1)))))"
proof -
  from assms obtain sg a where facts:
    "app_signature (pp_payload payload) = Some sg" "sg \<noteq> []"
    "app_authorization (pp_payload payload) = Some a"
    "sdk_decodeSignedTransaction sdk sg = Inr txn"
    "sdk_encodeAddress sdk (txn_sender_key txn) = Inr payer"
    by (rule envelopeD)
  show ?thesis
  proof (cases "txn_to_address sdk txn []")
    case (Inl e)
    with facts show ?thesis by (simp add: verify_try_def Let_def)
  next
    case (Inr toAddr)
    with facts show ?thesis
      by (simp add: verify_try_def Let_def split: sum.split prod.split)
  qed
qed

lemma verify_try_no_envelope:
  assumes "envelope sdk payload = None"
  shows "verify_try sdk node s payload requirements = (Inr missing_response, s)
       \<or> (\<exists>e. verify_try sdk node s payload requirements = (Inl e, s))"
proof (cases "app_signature (pp_payload payload)")
  case None
  then show ?thesis by (simp add: verify_try_def)
next
  case (Some sg)
  show ?thesis
  proof (cases "sg = [] \<or> app_authorization (pp_payload payload) = None")
    case True
    with Some show ?thesis by (auto simp: verify_try_def)
  next
    case False
    show ?thesis
    proof (cases "sdk_decodeSignedTransaction sdk sg")
      case (Inl e)
      with Some False show ?thesis by (auto simp: verify_try_def)
    next
      case (Inr txn)
      with Some False assms obtain e where "sdk_encodeAddress sdk (txn_sender_key txn) = Inl e"
        by (auto simp: envelope_def split: sum.splits)
      with Some False Inr show ?thesis by (auto simp: verify_try_def)
    qed
  qed
qed

lemma verify_algorand:
  assumes "isAlgorandNetwork (pr_network requirements)"
  shows "verifyAlgorandPayment sdk node s payload requirements =
           (case verify_try sdk node s payload requirements of
              (Inr response, s1) \<Rightarrow> (Inr response, s1)
            | (Inl e, s1) \<Rightarrow> (Inr (verification_error e), s1))"
  using assms by (simp add: verifyAlgorandPayment_def)

lemma verify_try_sent:
  assumes "verify_try sdk node s payload requirements = (x, s')"
  shows "io_sent s' = io_sent s"
proof (cases "envelope sdk payload")
  case None
  from verify_try_no_envelope [OF None, of node s requirements] assms
  show ?thesis by auto
next
  case (Some tp)
  obtain txn payer where tp: "tp = (txn, payer)" by (cases tp)
  from assms show ?thesis
    unfolding verify_try_envelope [OF Some [unfolded tp]]
    by (auto simp: call_status_def tick_def split: if_splits sum.splits prod.splits)
qed

text \<open>The verifier sends nothing to the node.\<close>

lemma verifyAlgorandPayment_sent:
  assumes "verifyAlgorandPayment sdk node s payload requirements = (x, s')"
  shows "io_sent s' = io_sent s"
proof (cases "isAlgorandNetwork (pr_network requirements)")
  case False
  with assms show ?thesis by (simp add: verifyAlgorandPayment_def)
next
  case True
  obtain y s1 where y: "verify_try sdk node s payload requirements = (y, s1)"
    by (cases "verify_try sdk node s payload requirements")
  from assms True y have "s' = s1"
    by (cases y) (auto simp: verifyAlgorandPayment_def)
  with verify_try_sent [OF y] show ?thesis by simp
qed

text \<open>What a successful verification tells about the payload and the requirements.\<close>

lemma verify_validD:
  assumes "verifyAlgorandPayment sdk node s payload requirements = (Inr r, s')"
    and "vr_isValid r"
  obtains txn payer client status where
    "isAlgorandNetwork (pr_network requirements)"
    "envelope sdk payload = Some (txn, payer)"
    "verifyAlgorandSignature sdk (pp_payload payload) payer"
    "txn_to_address sdk txn [] = Inr (pr_payTo requirements)"
    "txn_amount_string txn = pr_maxAmountRequired requirements"
    "nv_strict_eq_num (js_or (txn_asset txn) (Some (NumV (JFin 0))))
       (js_parseInt (pr_asset requirements))"
    "getAlgodClient (pr_network requirements) = Inr client"
    "call_status node client s = (Inr status, s')"
    "\<not> js_lt (txn_last_valid txn) (js_Number (st_lastRound status))"
    "r = \<lparr>vr_isValid = True, vr_payer = Some payer, vr_invalidReason = None\<rparr>"
proof -
  have net: "isAlgorandNetwork (pr_network requirements)"
    using assms by (auto simp: verifyAlgorandPayment_def split: if_splits)
  have tr: "verify_try sdk node s payload requirements = (Inr r, s')"
    using assms net
    by (auto simp: verifyAlgorandPayment_def verification_error_def split: prod.splits sum.splits)
  have "envelope sdk payload \<noteq> None"
  proof
    assume "envelope sdk payload = None"
    from verify_try_no_envelope [OF this, of node s requirements] tr assms(2)
    show False by (auto simp: missing_response_def)
  qed
  then obtain txn payer where env: "envelope sdk payload = Some (txn, payer)"
    by (cases "envelope sdk payload") auto
  note decided = tr [unfolded verify_try_envelope [OF env]]
  have sig: "verifyAlgorandSignature sdk (pp_payload payload) payer"
    using decided assms(2) by (auto simp: invalid_def split: if_splits)
  with decided obtain toAddr where to: "txn_to_address sdk txn [] = Inr toAddr"
    by (cases "txn_to_address sdk txn []") auto
  from decided sig to assms(2) have payTo: "toAddr = pr_payTo requirements"
    by (auto simp: invalid_def split: if_splits)
  from decided sig to payTo assms(2)
  have amount: "txn_amount_string txn = pr_maxAmountRequired requirements"
    by (auto simp: invalid_def split: if_splits)
  from decided sig to payTo amount assms(2)
  have asset: "nv_strict_eq_num (js_or (txn_asset txn) (Some (NumV (JFin 0))))
                 (js_parseInt (pr_asset requirements))"
    by (auto simp: invalid_def split: if_splits)
  from decided sig to payTo amount asset
  obtain client where client: "getAlgodClient (pr_network requirements) = Inr client"
    by (cases "getAlgodClient (pr_network requirements)") auto
  from decided sig to payTo amount asset client
  obtain status where status: "call_status node client s = (Inr status, s')"
    by (cases "call_status node client s"; cases "fst (call_status node client s)")
       (auto split: if_splits)
  from decided sig to payTo amount asset client status assms(2)
  have round: "\<not> js_lt (txn_last_valid txn) (js_Number (st_lastRound status))"
    and r: "r = \<lparr>vr_isValid = True, vr_payer = Some payer, vr_invalidReason = None\<rparr>"
    by (auto simp: invalid_def split: if_splits)
  from net env sig to payTo amount asset client status round r that
  show thesis by blast
qed

lemma js_strict_eq_sym: "js_strict_eq a b = js_strict_eq b a"
  by (cases a; cases b) auto

lemma js_strict_eq_eq: "js_strict_eq a b \<Longrightarrow> a = b"
  by (cases a; cases b) auto

lemma nv_strict_eq_numD: "nv_strict_eq_num v x \<Longrightarrow> v = Some (NumV x)"
  by (cases "(v, x)" rule: nv_strict_eq_num.cases) (auto dest: js_strict_eq_eq)

subsection \<open>Runs of the verifier on the stub SDK and node\<close>

lemma stub_verify_valid:
  "verifyAlgorandPayment (stub_sdk stub_txn) stub_node io0 stub_payload stub_requirements
     = (Inr \<lparr>vr_isValid = True, vr_payer = Some ''ADDR-PAYER'', vr_invalidReason = None\<rparr>,
        \<lparr>io_clock = 1, io_sent = []\<rparr>)"
  by code_simp


lemma stub_network: "isAlgorandNetwork (pr_network stub_requirements)"
  by code_simp

text \<open>
  Claim C9. \<open>verifyAlgorandPayment\<close> returns a response for every input and never
  throws: an exception raised in its \<open>try\<close> block, such as a signed transaction that
  does not decode, becomes the response with \<open>isValid: false\<close>, no payer, and the reason
  \<open>Verification error:\<close> followed by the message of the exception.
\<close>

theorem verifyAlgorandPayment_total:
  "\<exists>response s'.
      verifyAlgorandPayment sdk node s payload requirements = (Inr response, s')
      \<and> (\<forall>e s1. isAlgorandNetwork (pr_network requirements)
                 \<and> verify_try sdk node s payload requirements = (Inl e, s1)
                 \<longrightarrow> response = \<lparr>vr_isValid = False, vr_payer = None,
                                  vr_invalidReason = Some (''Verification error: '' @ e)\<rparr>
                     \<and> s' = s1)
      \<and> (\<forall>sg a e. isAlgorandNetwork (pr_network requirements)
                 \<and> app_signature (pp_payload payload) = Some sg \<and> sg \<noteq> []
                 \<and> app_authorization (pp_payload payload) = Some a
                 \<and> sdk_decodeSignedTransaction sdk sg = Inl e
                 \<longrightarrow> response = \<lparr>vr_isValid = False, vr_payer = None,
                                  vr_invalidReason = Some (''Verification error: '' @ e)\<rparr>
                     \<and> s' = s)"
proof (cases "isAlgorandNetwork (pr_network requirements)")
  case False
  then show ?thesis by (simp add: verifyAlgorandPayment_def)
next
  case True
  obtain y s1 where y: "verify_try sdk node s payload requirements = (y, s1)"
    by (cases "verify_try sdk node s payload requirements")
  have dec: "y = Inl e \<and> s1 = s"
    if "app_signature (pp_payload payload) = Some sg" "sg \<noteq> []"
       "app_authorization (pp_payload payload) = Some a"
       "sdk_decodeSignedTransaction sdk sg = Inl e" for sg a e
    using that y by (simp add: verify_try_def)
  show ?thesis
  proof (cases y)
    case (Inl e)
    with True y dec show ?thesis
      by (auto simp: verify_algorand verification_error_def)
  next
    case (Inr response)
    with True y dec show ?thesis
      by (auto simp: verify_algorand)
  qed
qed

theorem verifyAlgorandPayment_total_witness:
  "verifyAlgorandPayment (stub_sdk stub_txn) stub_node io0
     (stub_payload\<lparr>pp_payload := (pp_payload stub_payload)\<lparr>app_signature := Some ''AAAA''\<rparr>\<rparr>)
     stub_requirements
   = (Inr \<lparr>vr_isValid = False, vr_payer = None,
           vr_invalidReason
             = Some ''Verification error: Invalid msgpack: unexpected end of data''\<rparr>,
      io0)"
proof -
  let ?p = "stub_payload\<lparr>pp_payload := (pp_payload stub_payload)\<lparr>app_signature := Some ''AAAA''\<rparr>\<rparr>"
  from verifyAlgorandPayment_total [of "stub_sdk stub_txn" stub_node io0 ?p stub_requirements]
  obtain response s' where
    v: "verifyAlgorandPayment (stub_sdk stub_txn) stub_node io0 ?p stub_requirements
          = (Inr response, s')"
    and d: "\<forall>sg a e. isAlgorandNetwork (pr_network stub_requirements)
                 \<and> app_signature (pp_payload ?p) = Some sg \<and> sg \<noteq> []
                 \<and> app_authorization (pp_payload ?p) = Some a
                 \<and> sdk_decodeSignedTransaction (stub_sdk stub_txn) sg = Inl e
                 \<longrightarrow> response = \<lparr>vr_isValid = False, vr_payer = None,
                                  vr_invalidReason = Some (''Verification error: '' @ e)\<rparr>
                     \<and> s' = io0"
    by blast
  have "sdk_decodeSignedTransaction (stub_sdk stub_txn) ''AAAA''
          = Inl ''Invalid msgpack: unexpected end of data''"
    by (simp add: stub_sdk_def stub_signature_def)
  with d stub_network
  have "response = \<lparr>vr_isValid = False, vr_payer = None,
                    vr_invalidReason
                      = Some ''Verification error: Invalid msgpack: unexpected end of data''\<rparr>
        \<and> s' = io0"
    by (simp add: stub_payload_def)
  with v show ?thesis by simp
qed



text \<open>
  Claim C5. For a payload created to satisfy the requirements, replacing \<open>payTo\<close>,
  \<open>maxAmountRequired\<close> or \<open>asset\<close> by a different value always makes verification fail
  with a reason that names the field, the expected and the actual value.
  The reason is \<open>Recipient mismatch\<close>, \<open>Amount mismatch\<close> or \<open>Asset ID mismatch\<close>,
  followed by \<open>: expected\<close>, the value of the requirements, \<open>, got\<close> and the value
  of the transaction.
  The asset is compared after \<open>parseInt\<close>: a different asset string with the same
  integer prefix changes nothing.
\<close>

theorem verifyAlgorandPayment_tamper_asset_counterexample:
  "verifyAlgorandPayment (stub_sdk stub_txn) stub_node io0 stub_payload stub_requirements
     = (Inr \<lparr>vr_isValid = True, vr_payer = Some ''ADDR-PAYER'', vr_invalidReason = None\<rparr>,
        \<lparr>io_clock = 1, io_sent = []\<rparr>)
   \<and> pr_asset stub_requirements = ''10458941''
   \<and> verifyAlgorandPayment (stub_sdk stub_txn) stub_node io0 stub_payload
        (stub_requirements\<lparr>pr_asset := ''10458941x''\<rparr>)
     = (Inr \<lparr>vr_isValid = True, vr_payer = Some ''ADDR-PAYER'', vr_invalidReason = None\<rparr>,
        \<lparr>io_clock = 1, io_sent = []\<rparr>)"
  by code_simp

text \<open>
  Claim C5, as the code has it. For a payload that verifies against the requirements, a
  different \<open>payTo\<close>, a different \<open>maxAmountRequired\<close>, or an \<open>asset\<close> whose \<open>parseInt\<close>
  differs from that of the original asset makes verification fail, with the payer still
  reported and a reason naming the field, the expected value (the changed one; for the
  asset its \<open>parseInt\<close>, printed) and the actual one (that of the transaction, which is
  the original one); the node is not asked.
\<close>

theorem verifyAlgorandPayment_tamper:
  assumes "verifyAlgorandPayment sdk node s payload requirements = (Inr r, s')"
    and "vr_isValid r"
  shows
    "(payTo' \<noteq> pr_payTo requirements \<longrightarrow>
        verifyAlgorandPayment sdk node s payload (requirements\<lparr>pr_payTo := payTo'\<rparr>)
          = (Inr \<lparr>vr_isValid = False, vr_payer = vr_payer r,
                  vr_invalidReason =
                    Some (''Recipient mismatch: expected '' @ payTo'
                          @ '', got '' @ pr_payTo requirements)\<rparr>, s))
     \<and> (amount' \<noteq> pr_maxAmountRequired requirements \<longrightarrow>
        verifyAlgorandPayment sdk node s payload (requirements\<lparr>pr_maxAmountRequired := amount'\<rparr>)
          = (Inr \<lparr>vr_isValid = False, vr_payer = vr_payer r,
                  vr_invalidReason =
                    Some (''Amount mismatch: expected '' @ amount'
                          @ '', got '' @ pr_maxAmountRequired requirements)\<rparr>, s))
     \<and> (\<not> js_strict_eq (js_parseInt asset') (js_parseInt (pr_asset requirements)) \<longrightarrow>
        verifyAlgorandPayment sdk node s payload (requirements\<lparr>pr_asset := asset'\<rparr>)
          = (Inr \<lparr>vr_isValid = False, vr_payer = vr_payer r,
                  vr_invalidReason =
                    Some (''Asset ID mismatch: expected '' @ js_toString (js_parseInt asset')
                          @ '', got '' @ js_toString (js_parseInt (pr_asset requirements)))\<rparr>, s))"
proof -
  from assms obtain txn payer where
    net: "isAlgorandNetwork (pr_network requirements)"
    and env: "envelope sdk payload = Some (txn, payer)"
    and sig: "verifyAlgorandSignature sdk (pp_payload payload) payer"
    and to: "txn_to_address sdk txn [] = Inr (pr_payTo requirements)"
    and amount: "txn_amount_string txn = pr_maxAmountRequired requirements"
    and asset: "nv_strict_eq_num (js_or (txn_asset txn) (Some (NumV (JFin 0))))
                  (js_parseInt (pr_asset requirements))"
    and r: "r = \<lparr>vr_isValid = True, vr_payer = Some payer, vr_invalidReason = None\<rparr>"
    by (rule verify_validD)
  from asset have asset_eq:
    "js_or (txn_asset txn) (Some (NumV (JFin 0))) = Some (NumV (js_parseInt (pr_asset requirements)))"
    by (rule nv_strict_eq_numD)
  have p: "verifyAlgorandPayment sdk node s payload (requirements\<lparr>pr_payTo := payTo'\<rparr>)
          = (Inr \<lparr>vr_isValid = False, vr_payer = vr_payer r,
                  vr_invalidReason =
                    Some (''Recipient mismatch: expected '' @ payTo'
                          @ '', got '' @ pr_payTo requirements)\<rparr>, s)"
    if "payTo' \<noteq> pr_payTo requirements"
    using that net sig to r
    by (auto simp: verify_algorand verify_try_envelope [OF env] invalid_def
                   recipient_mismatch_def)
  have a: "verifyAlgorandPayment sdk node s payload (requirements\<lparr>pr_maxAmountRequired := amount'\<rparr>)
          = (Inr \<lparr>vr_isValid = False, vr_payer = vr_payer r,
                  vr_invalidReason =
                    Some (''Amount mismatch: expected '' @ amount'
                          @ '', got '' @ pr_maxAmountRequired requirements)\<rparr>, s)"
    if "amount' \<noteq> pr_maxAmountRequired requirements"
    using that net sig to amount r
    by (auto simp: verify_algorand verify_try_envelope [OF env] invalid_def
                   amount_mismatch_def)
  have i: "verifyAlgorandPayment sdk node s payload (requirements\<lparr>pr_asset := asset'\<rparr>)
          = (Inr \<lparr>vr_isValid = False, vr_payer = vr_payer r,
                  vr_invalidReason =
                    Some (''Asset ID mismatch: expected '' @ js_toString (js_parseInt asset')
                          @ '', got '' @ js_toString (js_parseInt (pr_asset requirements)))\<rparr>, s)"
    if "\<not> js_strict_eq (js_parseInt asset') (js_parseInt (pr_asset requirements))"
    using that net sig to amount r
    by (auto simp: verify_algorand verify_try_envelope [OF env] invalid_def asset_eq
                   asset_mismatch_def
                   js_strict_eq_sym [of "js_parseInt (pr_asset requirements)"])
  from p a i show ?thesis by blast
qed

lemma parseInt_testnet_usdc: "js_parseInt ''10458941'' = JFin 10458941"
  by code_simp

lemma parseInt_mainnet_usdc: "js_parseInt ''31566704'' = JFin 31566704"
  by code_simp

lemma toString_testnet_usdc: "js_toString (JFin 10458941) = ''10458941''"
  by code_simp

lemma toString_mainnet_usdc: "js_toString (JFin 31566704) = ''31566704''"
  by code_simp

theorem verifyAlgorandPayment_tamper_witness:
  "verifyAlgorandPayment (stub_sdk stub_txn) stub_node io0 stub_payload
     (stub_requirements\<lparr>pr_payTo := ''ADDR-OTHER''\<rparr>)
     = (Inr \<lparr>vr_isValid = False, vr_payer = Some ''ADDR-PAYER'',
             vr_invalidReason
               = Some ''Recipient mismatch: expected ADDR-OTHER, got ADDR-MERCHANT''\<rparr>, io0)
   \<and> verifyAlgorandPayment (stub_sdk stub_txn) stub_node io0 stub_payload
     (stub_requirements\<lparr>pr_maxAmountRequired := ''99999''\<rparr>)
     = (Inr \<lparr>vr_isValid = False, vr_payer = Some ''ADDR-PAYER'',
             vr_invalidReason = Some ''Amount mismatch: expected 99999, got 10000''\<rparr>, io0)
   \<and> verifyAlgorandPayment (stub_sdk stub_txn) stub_node io0 stub_payload
     (stub_requirements\<lparr>pr_asset := ''31566704''\<rparr>)
     = (Inr \<lparr>vr_isValid = False, vr_payer = Some ''ADDR-PAYER'',
             vr_invalidReason
               = Some ''Asset ID mismatch: expected 31566704, got 10458941''\<rparr>, io0)"
proof -
  have valid: "vr_isValid \<lparr>vr_isValid = True, vr_payer = Some ''ADDR-PAYER'', vr_invalidReason = None\<rparr>"
    by simp
  have ne: "\<not> js_strict_eq (js_parseInt ''31566704'') (js_parseInt (pr_asset stub_requirements))"
    by (simp add: stub_requirements_def parseInt_testnet_usdc parseInt_mainnet_usdc)
  from verifyAlgorandPayment_tamper
         [OF stub_verify_valid valid, of "''ADDR-OTHER''" "''99999''" "''31566704''"] ne
  show ?thesis
    by (simp add: stub_requirements_def parseInt_testnet_usdc parseInt_mainnet_usdc
                  toString_testnet_usdc toString_mainnet_usdc
             del: js_toString.simps)
qed

text \<open>
  Claim C10. The authorization mirror must agree with the signed envelope: if the decoded
  receiver differs from \<open>authorization.to\<close>, or the decoded amount differs from
  \<open>authorization.amount\<close> while the decoded asset index equals \<open>authorization.assetId\<close>,
  verification fails with \<open>Invalid signature\<close>.
  The amount is compared only when \<open>txn.assetIndex || txn.xaid\<close> is defined: with the
  asset index 0 on both sides, a payload whose authorization states another amount than
  the envelope verifies.
\<close>

theorem verifyAlgorandPayment_mirror_counterexample:
  "envelope (stub_sdk algo_txn) algo_payload = Some (algo_txn, ''ADDR-PAYER'')
   \<and> app_authorization (pp_payload algo_payload)
       = Some (stub_authorization\<lparr>auth_assetId := JFin 0, auth_amount := ''5''\<rparr>)
   \<and> txn_assetIndex algo_txn = Some (NumV (JFin 0))
   \<and> txn_amount_string algo_txn = ''10000''
   \<and> verifyAlgorandPayment (stub_sdk algo_txn) stub_node io0 algo_payload algo_requirements
       = (Inr \<lparr>vr_isValid = True, vr_payer = Some ''ADDR-PAYER'', vr_invalidReason = None\<rparr>,
          \<lparr>io_clock = 1, io_sent = []\<rparr>)"
  by code_simp

text \<open>
  Claim C10, as the code has it. On an Algorand network, for a payload whose envelope
  decodes: if the address of the decoded receiver differs from \<open>authorization.to\<close> (or
  does not encode), or if \<open>txn.assetIndex || txn.xaid\<close> is defined and strictly equal to
  \<open>authorization.assetId\<close> while the decoded amount string differs from
  \<open>authorization.amount\<close>, the response is \<open>Invalid signature\<close> with the payer, whatever
  the requirements are.
\<close>

theorem verifyAlgorandPayment_mirror:
  assumes "isAlgorandNetwork (pr_network requirements)"
    and "envelope sdk payload = Some (txn, payer)"
    and "app_authorization (pp_payload payload) = Some a"
  shows
    "(txn_to_address sdk txn (auth_to a) \<noteq> Inr (auth_to a) \<longrightarrow>
        verifyAlgorandPayment sdk node s payload requirements
          = (Inr \<lparr>vr_isValid = False, vr_payer = Some payer,
                  vr_invalidReason = Some ''Invalid signature''\<rparr>, s))
     \<and> (txn_asset txn \<noteq> None \<and> nv_strict_eq_num (txn_asset txn) (auth_assetId a)
         \<and> txn_amount_string txn \<noteq> auth_amount a \<longrightarrow>
        verifyAlgorandPayment sdk node s payload requirements
          = (Inr \<lparr>vr_isValid = False, vr_payer = Some payer,
                  vr_invalidReason = Some ''Invalid signature''\<rparr>, s))"
proof -
  from assms(2) obtain sg a' where facts:
    "app_signature (pp_payload payload) = Some sg" "sg \<noteq> []"
    "app_authorization (pp_payload payload) = Some a'"
    "sdk_decodeSignedTransaction sdk sg = Inr txn"
    "sdk_encodeAddress sdk (txn_sender_key txn) = Inr payer"
    by (rule envelopeD)
  have 1: "\<not> verifyAlgorandSignature sdk (pp_payload payload) payer"
    if "txn_to_address sdk txn (auth_to a) \<noteq> Inr (auth_to a)"
    using that facts assms(3)
    by (cases "txn_to_address sdk txn (auth_to a)") (auto simp: verifyAlgorandSignature_def)
  have 2: "\<not> verifyAlgorandSignature sdk (pp_payload payload) payer"
    if "txn_asset txn \<noteq> None" "nv_strict_eq_num (txn_asset txn) (auth_assetId a)"
       "txn_amount_string txn \<noteq> auth_amount a"
    using that facts assms(3)
    by (cases "txn_to_address sdk txn (auth_to a)")
       (auto simp: verifyAlgorandSignature_def Let_def)
  have "verifyAlgorandPayment sdk node s payload requirements
          = (Inr \<lparr>vr_isValid = False, vr_payer = Some payer,
                  vr_invalidReason = Some ''Invalid signature''\<rparr>, s)"
    if "\<not> verifyAlgorandSignature sdk (pp_payload payload) payer"
    using that assms(1)
    by (simp add: verify_algorand verify_try_envelope [OF assms(2)] invalid_def)
  with 1 2 show ?thesis by blast
qed

theorem verifyAlgorandPayment_mirror_witness:
  "verifyAlgorandPayment (stub_sdk stub_txn) stub_node io0
     (stub_payload\<lparr>pp_payload :=
        (pp_payload stub_payload)\<lparr>app_authorization :=
           Some (stub_authorization\<lparr>auth_amount := ''5''\<rparr>)\<rparr>\<rparr>)
     stub_requirements
   = (Inr \<lparr>vr_isValid = False, vr_payer = Some ''ADDR-PAYER'',
           vr_invalidReason = Some ''Invalid signature''\<rparr>, io0)"
proof -
  let ?p = "stub_payload\<lparr>pp_payload :=
        (pp_payload stub_payload)\<lparr>app_authorization :=
           Some (stub_authorization\<lparr>auth_amount := ''5''\<rparr>)\<rparr>\<rparr>"
  have env: "envelope (stub_sdk stub_txn) ?p = Some (stub_txn, ''ADDR-PAYER'')"
    by code_simp
  have au: "app_authorization (pp_payload ?p) = Some (stub_authorization\<lparr>auth_amount := ''5''\<rparr>)"
    by simp
  have c: "txn_asset stub_txn \<noteq> None
        \<and> nv_strict_eq_num (txn_asset stub_txn) (auth_assetId (stub_authorization\<lparr>auth_amount := ''5''\<rparr>))
        \<and> txn_amount_string stub_txn \<noteq> auth_amount (stub_authorization\<lparr>auth_amount := ''5''\<rparr>)"
    by code_simp
  from verifyAlgorandPayment_mirror [OF stub_network env au, of stub_node io0] c
  show ?thesis by blast
qed

subsection \<open>Properties of the settler\<close>

lemma verify_invalid_reason:
  assumes "verifyAlgorandPayment sdk node s payload requirements = (Inr r, s')"
    and "\<not> vr_isValid r"
  shows "\<exists>reason. vr_invalidReason r = Some reason"
proof (cases "isAlgorandNetwork (pr_network requirements)")
  case False
  with assms show ?thesis by (auto simp: verifyAlgorandPayment_def)
next
  case True
  show ?thesis
  proof (cases "envelope sdk payload")
    case None
    from verify_try_no_envelope [OF None, of node s requirements] assms True
    show ?thesis
      by (auto simp: verify_algorand missing_response_def verification_error_def)
  next
    case (Some tp)
    obtain txn payer where tp: "tp = (txn, payer)" by (cases tp)
    from assms True show ?thesis
      unfolding verify_algorand [OF True] verify_try_envelope [OF Some [unfolded tp]]
      by (auto simp: invalid_def verification_error_def
               split: if_splits sum.splits prod.splits)
  qed
qed

text \<open>
  Claim C3. \<open>settleAlgorandPayment\<close> verifies before anything else: whenever
  \<open>verifyAlgorandPayment\<close> says \<open>isValid: false\<close>, the settler returns \<open>success: false\<close>
  with the verifier's reason behind a prefix, and submits nothing.
  For a network that is not an Algorand network the settler's own guard answers, with the
  same message as the verifier's and no prefix.
\<close>

theorem settleAlgorandPayment_prefix_counterexample:
  "verifyAlgorandPayment (stub_sdk stub_txn) stub_node io0 stub_payload
     (stub_requirements\<lparr>pr_network := ''base''\<rparr>)
     = (Inr \<lparr>vr_isValid = False, vr_payer = None,
             vr_invalidReason = Some ''Network base is not an Algorand network''\<rparr>, io0)
   \<and> settleAlgorandPayment (stub_sdk stub_txn) stub_node io0 stub_payload
        (stub_requirements\<lparr>pr_network := ''base''\<rparr>)
     = Some (Inr \<lparr>sr_success = False, sr_transaction = None, sr_network = ''base'',
                  sr_payer = None,
                  sr_errorReason = Some ''Network base is not an Algorand network''\<rparr>, io0)"
  by code_simp

text \<open>
  Claim C3, as the code has it. Whenever \<open>verifyAlgorandPayment\<close> says \<open>isValid: false\<close>,
  \<open>settleAlgorandPayment\<close> returns \<open>success: false\<close> without a transaction id and submits
  nothing to the node; its \<open>errorReason\<close> is \<open>Verification failed: \<close> followed by the
  verifier's reason on an Algorand network, and the verifier's reason itself (the
  network message) otherwise.
\<close>

theorem settleAlgorandPayment_verifies_first:
  assumes "verifyAlgorandPayment sdk node s payload requirements = (Inr r, s1)"
    and "\<not> vr_isValid r"
  shows "\<exists>reason response.
           vr_invalidReason r = Some reason
           \<and> settleAlgorandPayment sdk node s payload requirements = Some (Inr response, s1)
           \<and> \<not> sr_success response
           \<and> sr_transaction response = None
           \<and> io_sent s1 = io_sent s
           \<and> sr_errorReason response
               = Some (if isAlgorandNetwork (pr_network requirements)
                       then ''Verification failed: '' @ reason else reason)"
proof -
  from verify_invalid_reason [OF assms] obtain reason where
    reason: "vr_invalidReason r = Some reason" ..
  have sent: "io_sent s1 = io_sent s"
    using assms(1) by (rule verifyAlgorandPayment_sent)
  show ?thesis
  proof (cases "isAlgorandNetwork (pr_network requirements)")
    case False
    with assms reason sent show ?thesis
      by (auto simp: settleAlgorandPayment_def verifyAlgorandPayment_def settle_failure_def)
  next
    case True
    with assms reason sent show ?thesis
      by (simp add: settleAlgorandPayment_def settle_failure_def)
  qed
qed

theorem settleAlgorandPayment_verifies_first_witness:
  "\<exists>response.
      settleAlgorandPayment (stub_sdk stub_txn) stub_node io0 stub_payload
        (stub_requirements\<lparr>pr_maxAmountRequired := ''99999''\<rparr>)
        = Some (Inr response, io0)
      \<and> \<not> sr_success response
      \<and> sr_transaction response = None
      \<and> sr_errorReason response
          = Some (''Verification failed: '' @ amount_mismatch ''99999'' ''10000'')"
proof -
  let ?r = "stub_requirements\<lparr>pr_maxAmountRequired := ''99999''\<rparr>"
  have v: "verifyAlgorandPayment (stub_sdk stub_txn) stub_node io0 stub_payload ?r
             = (Inr \<lparr>vr_isValid = False, vr_payer = Some ''ADDR-PAYER'',
                     vr_invalidReason = Some (amount_mismatch ''99999'' ''10000'')\<rparr>, io0)"
    by code_simp
  have i: "\<not> vr_isValid \<lparr>vr_isValid = False, vr_payer = Some ''ADDR-PAYER'',
                     vr_invalidReason = Some (amount_mismatch ''99999'' ''10000'')\<rparr>"
    by simp
  have net: "isAlgorandNetwork (pr_network ?r)"
    using stub_network by simp
  from settleAlgorandPayment_verifies_first [OF v i]
  show ?thesis unfolding if_P [OF net] by auto
qed

text \<open>
  Claim C7. When the submission fails with an error that says the transaction is
  already in the ledger, the settler takes the transaction id from the payload's
  \<open>txnId\<close> and goes on as after a successful submission: it waits for the confirmation of
  that id and, once confirmed, returns it in a successful response.
\<close>

theorem settleAlgorandPayment_already_in_ledger:
  assumes "verifyAlgorandPayment sdk node s payload requirements = (Inr r, s1)"
    and "vr_isValid r"
    and "getAlgodClient (pr_network requirements) = Inr client"
    and "app_signature (pp_payload payload) = Some signedTxn"
    and "call_sendRawTransaction node client signedTxn s1 = (Inl e, s2)"
    and "js_includes e ''already in ledger''"
    and "txId = (case app_txnId (pp_payload payload) of None \<Rightarrow> [] | Some t \<Rightarrow> t)"
    and "w = waitForConfirmation node (pr_network requirements) txId
               (Some (rounds_of_seconds (pr_maxTimeoutSeconds requirements))) s2"
  shows
    "(\<forall>pendingInfo s3. w = Some (Inr pendingInfo, s3) \<longrightarrow>
        settleAlgorandPayment sdk node s payload requirements
          = Some (Inr \<lparr>sr_success = True, sr_transaction = Some txId,
                       sr_network = pr_network requirements, sr_payer = vr_payer r,
                       sr_errorReason = None\<rparr>, s3))
     \<and> (\<forall>e' s3. w = Some (Inl e', s3) \<longrightarrow>
        settleAlgorandPayment sdk node s payload requirements
          = Some (Inr (settle_failure (pr_network requirements) (vr_payer r)
                         (''Transaction submission succeeded but confirmation failed: '' @ e')),
                  s3))
     \<and> (w = None \<longrightarrow> settleAlgorandPayment sdk node s payload requirements = None)"
proof -
  have net: "isAlgorandNetwork (pr_network requirements)"
    using assms(1,2) by (auto simp: verifyAlgorandPayment_def split: if_splits)
  have sub: "submit_or_recover node client (pp_payload payload) signedTxn s1 = (Inr txId, s2)"
    using assms(5,6,7) by (simp add: submit_or_recover_def)
  have "settleAlgorandPayment sdk node s payload requirements =
          (case w of
             None \<Rightarrow> None
           | Some (Inl e', s3) \<Rightarrow>
               Some (Inr (settle_failure (pr_network requirements) (vr_payer r)
                  (''Transaction submission succeeded but confirmation failed: '' @ e')), s3)
           | Some (Inr pendingInfo, s3) \<Rightarrow>
               Some (Inr \<lparr>sr_success = True, sr_transaction = Some txId,
                          sr_network = pr_network requirements, sr_payer = vr_payer r,
                          sr_errorReason = None\<rparr>, s3))"
    using net assms(1,2,3,4,8) sub
    by (simp add: settleAlgorandPayment_def Let_def)
  then show ?thesis by auto
qed

theorem settleAlgorandPayment_already_in_ledger_witness:
  "settleAlgorandPayment (stub_sdk stub_txn) ledger_node io0 stub_payload stub_requirements
     = Some (Inr \<lparr>sr_success = True, sr_transaction = Some ''TXID52OKLM'',
                  sr_network = ''algorand-testnet'', sr_payer = Some ''ADDR-PAYER'',
                  sr_errorReason = None\<rparr>,
             \<lparr>io_clock = 4,
              io_sent = [(''https://testnet-api.algonode.cloud'', stub_signature)]\<rparr>)"
proof -
  have v: "verifyAlgorandPayment (stub_sdk stub_txn) ledger_node io0 stub_payload stub_requirements
     = (Inr \<lparr>vr_isValid = True, vr_payer = Some ''ADDR-PAYER'', vr_invalidReason = None\<rparr>,
        \<lparr>io_clock = 1, io_sent = []\<rparr>)"
    by code_simp
  have valid: "vr_isValid \<lparr>vr_isValid = True, vr_payer = Some ''ADDR-PAYER'', vr_invalidReason = None\<rparr>"
    by simp
  have client: "getAlgodClient (pr_network stub_requirements) = Inr ''https://testnet-api.algonode.cloud''"
    by code_simp
  have sg: "app_signature (pp_payload stub_payload) = Some stub_signature"
    by (simp add: stub_payload_def)
  have send: "call_sendRawTransaction ledger_node ''https://testnet-api.algonode.cloud''
                stub_signature \<lparr>io_clock = 1, io_sent = []\<rparr>
              = (Inl ''TransactionPool.Remember: transaction already in ledger: TXID52OKLM'',
                 \<lparr>io_clock = 2,
                  io_sent = [(''https://testnet-api.algonode.cloud'', stub_signature)]\<rparr>)"
    by code_simp
  have inc: "js_includes ''TransactionPool.Remember: transaction already in ledger: TXID52OKLM''
               ''already in ledger''"
    by code_simp
  have tx: "''TXID52OKLM'' = (case app_txnId (pp_payload stub_payload) of None \<Rightarrow> [] | Some t \<Rightarrow> t)"
    by (simp add: stub_payload_def)
  have w: "waitForConfirmation ledger_node (pr_network stub_requirements) ''TXID52OKLM''
             (Some (rounds_of_seconds (pr_maxTimeoutSeconds stub_requirements)))
             \<lparr>io_clock = 2, io_sent = [(''https://testnet-api.algonode.cloud'', stub_signature)]\<rparr>
           = Some (Inr \<lparr>pi_confirmedRound = Some (NumV (JFin 1001)), pi_poolError = None\<rparr>,
                   \<lparr>io_clock = 4,
                    io_sent = [(''https://testnet-api.algonode.cloud'', stub_signature)]\<rparr>)"
    by code_simp
  from settleAlgorandPayment_already_in_ledger
         [OF v valid client sg send inc tx w [symmetric]]
  show ?thesis
    by (simp add: stub_requirements_def)
qed

subsection \<open>Properties of the signer\<close>

text \<open>
  What a successful \<open>processAlgorandPayment\<close> did: the node's suggested parameters went
  unchanged into the transaction that was signed.
\<close>

lemma processAlgorandPayment_signed:
  assumes "processAlgorandPayment sdk node s requirements account maxValue = (Inr payload, s1)"
  obtains client suggestedParams amount txn signature where
    "isAlgorandNetwork (pr_network requirements)"
    "getAlgodClient (pr_network requirements) = Inr client"
    "call_getTransactionParams node client s = (Inr suggestedParams, s1)"
    "js_BigInt (pr_maxAmountRequired requirements) = Inr amount"
    "sdk_makeAssetTransferTxn sdk
       (transfer_params requirements account amount (js_parseInt (pr_asset requirements))
          suggestedParams) = Inr txn"
    "sdk_signTxn sdk txn (acct_privateKey account) = Inr signature"
    "payload =
       \<lparr>pp_x402Version = 1,
        pp_scheme = pr_scheme requirements,
        pp_network = pr_network requirements,
        pp_payload =
          \<lparr>app_signature = Some signature,
           app_authorization =
             Some \<lparr>auth_from = acct_address account,
                   auth_to = pr_payTo requirements,
                   auth_amount = pr_maxAmountRequired requirements,
                   auth_assetId = js_parseInt (pr_asset requirements),
                   auth_validRounds = rounds_of_seconds (pr_maxTimeoutSeconds requirements),
                   auth_note = Some (pr_description requirements)\<rparr>,
           app_txnId = Some (sdk_txID sdk txn)\<rparr>\<rparr>"
proof -
  have net: "isAlgorandNetwork (pr_network requirements)"
    using assms by (auto simp: processAlgorandPayment_def split: if_splits)
  have mv: "exceeds_max_value requirements maxValue = None"
    using assms net by (auto simp: processAlgorandPayment_def split: option.splits)
  obtain client where client: "getAlgodClient (pr_network requirements) = Inr client"
    using assms net mv
    by (cases "getAlgodClient (pr_network requirements)")
       (auto simp: processAlgorandPayment_def getSuggestedParams_def)
  obtain x s' where call: "call_getTransactionParams node client s = (x, s')"
    by (cases "call_getTransactionParams node client s")
  obtain suggestedParams where sp: "x = Inr suggestedParams"
    using assms net mv client call
    by (cases x) (auto simp: processAlgorandPayment_def getSuggestedParams_def)
  note start = net mv client call sp
  obtain amount where amount: "js_BigInt (pr_maxAmountRequired requirements) = Inr amount"
    using assms start
    by (cases "js_BigInt (pr_maxAmountRequired requirements)")
       (auto simp: processAlgorandPayment_def getSuggestedParams_def Let_def)
  obtain txn where txn: "sdk_makeAssetTransferTxn sdk
       (transfer_params requirements account amount (js_parseInt (pr_asset requirements))
          suggestedParams) = Inr txn"
    using assms start amount
    by (cases "sdk_makeAssetTransferTxn sdk
       (transfer_params requirements account amount (js_parseInt (pr_asset requirements))
          suggestedParams)")
       (auto simp: processAlgorandPayment_def getSuggestedParams_def Let_def)
  obtain signature where sg: "sdk_signTxn sdk txn (acct_privateKey account) = Inr signature"
    using assms start amount txn
    by (cases "sdk_signTxn sdk txn (acct_privateKey account)")
       (auto simp: processAlgorandPayment_def getSuggestedParams_def Let_def)
  from assms start amount txn sg
  have "s1 = s'" and "payload =
       \<lparr>pp_x402Version = 1,
        pp_scheme = pr_scheme requirements,
        pp_network = pr_network requirements,
        pp_payload =
          \<lparr>app_signature = Some signature,
           app_authorization =
             Some \<lparr>auth_from = acct_address account,
                   auth_to = pr_payTo requirements,
                   auth_amount = pr_maxAmountRequired requirements,
                   auth_assetId = js_parseInt (pr_asset requirements),
                   auth_validRounds = rounds_of_seconds (pr_maxTimeoutSeconds requirements),
                   auth_note = Some (pr_description requirements)\<rparr>,
           app_txnId = Some (sdk_txID sdk txn)\<rparr>\<rparr>"
    by (auto simp: processAlgorandPayment_def getSuggestedParams_def Let_def)
  with net client call sp amount txn sg that show thesis by blast
qed

lemma transfer_params_suggested:
  "atp_suggestedParams (transfer_params requirements account amount assetId suggestedParams)
     = suggestedParams"
  by (simp add: transfer_params_def)

text \<open>The wallet of the client agent overrides the last valid round.\<close>

lemma signPayment_params_last_round:
  assumes "signPayment_params paymentOption address suggestedParams = Inr params"
    and "sp_firstRound suggestedParams = Some (NumV firstRound)"
  shows "sp_lastRound (atp_suggestedParams params)
           = Some (NumV (js_add firstRound
                           (rounds_of_seconds (pr_maxTimeoutSeconds paymentOption))))"
  using assms
  by (auto simp: signPayment_params_def Let_def split: sum.splits)

text \<open>
  Claim C6. The Algorand signer computes
  \<open>validRounds = ceil(maxTimeoutSeconds / 4.5)\<close> and signs a transaction whose last
  valid round is the first valid round plus \<open>validRounds\<close>.
  With \<open>maxTimeoutSeconds = 600\<close> and a node that suggests the rounds 1000 to 2000, the
  claim asks for the last valid round \<open>1000 + 134 = 1134\<close>. \<open>processAlgorandPayment\<close>
  records \<open>validRounds = 134\<close> in the authorization but signs a transaction valid to round
  2000; the wallet's \<open>signPayment\<close> makes its transaction valid to round 1134.
\<close>

theorem processAlgorandPayment_last_valid_round:
  "processAlgorandPayment rounds_sdk stub_node io0 stub_requirements stub_account None
     = (Inr \<lparr>pp_x402Version = 1, pp_scheme = ''exact'', pp_network = ''algorand-testnet'',
             pp_payload =
               \<lparr>app_signature = Some ''valid rounds 1000 to 2000'',
                app_authorization = Some stub_authorization,
                app_txnId = Some ''TXID52OKLM''\<rparr>\<rparr>,
        \<lparr>io_clock = 1, io_sent = []\<rparr>)
   \<and> auth_validRounds stub_authorization = JFin 134
   \<and> rounds_of_seconds (pr_maxTimeoutSeconds stub_requirements) = JFin 134
   \<and> js_plus_number (sp_firstRound stub_params)
        (rounds_of_seconds (pr_maxTimeoutSeconds stub_requirements)) = Inr (JFin 1134)
   \<and> signPayment_params stub_requirements ''ADDR-PAYER'' stub_params
       = Inr (transfer_params stub_requirements stub_account 10000 (JFin 10458941)
                (stub_params\<lparr>sp_lastRound := Some (NumV (JFin 1134))\<rparr>))"
  by code_simp

subsection \<open>Signing, then verifying\<close>

text \<open>
  The verifier takes the payer from \<open>encodeAddress(txn.from?.publicKey || txn.sender)\<close>.
  When the SDK throws there, whatever the requirements are, the response is the one of
  the \<open>catch\<close> handler.
\<close>

lemma verifyAlgorandPayment_sender_not_encoded:
  assumes "isAlgorandNetwork (pr_network requirements)"
    and "app_signature (pp_payload payload) = Some sg" and "sg \<noteq> []"
    and "app_authorization (pp_payload payload) = Some a"
    and "sdk_decodeSignedTransaction sdk sg = Inr d"
    and "sdk_encodeAddress sdk (txn_sender_key d) = Inl e"
  shows "verifyAlgorandPayment sdk node s payload requirements
           = (Inr \<lparr>vr_isValid = False, vr_payer = None,
                   vr_invalidReason = Some (''Verification error: '' @ e)\<rparr>, s)"
  using assms by (simp add: verify_algorand verify_try_def verification_error_def)

text \<open>
  The verifier compares the decoded amount, printed, with the string
  \<open>maxAmountRequired\<close>, while the signer converts that string with \<open>BigInt\<close>: for the
  amount \<open>007\<close> the signer signs a transfer of 7, and a verifier that decodes exactly
  that transfer, in time, rejects the payload.
\<close>

lemma sign_then_verify_padded_amount:
  "processAlgorandPayment (stub_sdk padded_txn) stub_node io0 padded_requirements stub_account None
     = (Inr padded_payload, \<lparr>io_clock = 1, io_sent = []\<rparr>)
   \<and> js_BigInt (pr_maxAmountRequired padded_requirements) = Inr 7
   \<and> verifyAlgorandPayment (stub_sdk padded_txn) stub_node \<lparr>io_clock = 1, io_sent = []\<rparr>
        padded_payload padded_requirements
       = (Inr \<lparr>vr_isValid = False, vr_payer = Some ''ADDR-PAYER'',
               vr_invalidReason = Some ''Invalid signature''\<rparr>,
          \<lparr>io_clock = 1, io_sent = []\<rparr>)"
  by code_simp

text \<open>
  Claim C2. Signing a payment for given requirements and verifying the payload against
  the same requirements always gives \<open>isValid: true\<close> with the signer's address as
  payer, provided the current round has not passed the transaction's last valid round.
  The repository's test \<open>test-algorand-payment.ts\<close> does exactly this and expects
  \<open>isValid\<close>. The two functions are written against different generations of the SDK:
  \<open>processAlgorandPayment\<close> builds the transaction with \<open>sender\<close> and \<open>receiver\<close>, while
  \<open>verifyAlgorandPayment\<close> passes \<open>txn.sender\<close> to \<open>encodeAddress\<close> and reads \<open>to\<close>,
  \<open>amount\<close> and \<open>assetIndex\<close>. On an SDK of the signer's generation the payment of the
  test is signed, the node is at round 1000, the transaction is valid until round 2000,
  and the verifier answers \<open>isValid: false\<close> with a \<open>Verification error\<close>.
\<close>

theorem sign_then_verify_sdk_v3:
  "processAlgorandPayment sdk_v3 stub_node io0 stub_requirements stub_account None
     = (Inr stub_payload, \<lparr>io_clock = 1, io_sent = []\<rparr>)
   \<and> sdk_decodeSignedTransaction sdk_v3 stub_signature = Inr sdk_v3_txn
   \<and> txn_last_valid sdk_v3_txn = JFin 2000
   \<and> call_status stub_node ''https://testnet-api.algonode.cloud'' \<lparr>io_clock = 1, io_sent = []\<rparr>
       = (Inr \<lparr>st_lastRound = Some (NumV (JFin 1000))\<rparr>, \<lparr>io_clock = 2, io_sent = []\<rparr>)
   \<and> verifyAlgorandPayment sdk_v3 stub_node \<lparr>io_clock = 1, io_sent = []\<rparr>
        stub_payload stub_requirements
       = (Inr \<lparr>vr_isValid = False, vr_payer = None,
               vr_invalidReason
                 = Some ''Verification error: ADDR-PAYER is not Uint8Array, type object''\<rparr>,
          \<lparr>io_clock = 1, io_sent = []\<rparr>)"
  by code_simp

end
